theory Spec2Isabelle
  imports Main
begin

section \<open>The signed-token library used by the authentication module\<close>

text \<open>
  The module \<^verbatim>\<open>modules/auth/api/utils.ts\<close> signs and verifies its tokens with the
  \<^verbatim>\<open>jsonwebtoken\<close> package, which is not part of the repository. Its two entry
  points are modelled here by an executable symbolic codec:

  \<^item> \<^verbatim>\<open>sign(data, secret, {expiresIn})\<close> stamps the data with the issue time
    \<open>iat\<close> (the clock, in seconds) and the expiry \<open>exp = iat + expiresIn\<close>, serialises
    the result and appends a keyed signature over it;
  \<^item> \<^verbatim>\<open>verify(token, secret)\<close> throws on a token that does not parse, on a
    signature that does not match the secret and on a token whose \<open>exp\<close> is not after
    the clock; otherwise it returns the data.

  The clock is an explicit argument \<open>now\<close> (seconds). Times and counters are natural
  numbers. The signature is an ideal keyed function of secret and body: the model says
  nothing about what an attacker can compute, only what the two entry points return.
  \<^verbatim>\<open>sign\<close> refuses an empty secret: it throws
  \<^verbatim>\<open>Error('secretOrPrivateKey must have a value')\<close>, and so do the generators built
  on it. The environment module leaves both secrets empty when they are not configured,
  so this is a path the program can take. \<open>verify\<close> is modelled for the secret it
  is given, without a test for emptiness; what is proved about issued tokens is proved for
  non-empty secrets.
\<close>

text \<open>A thrown JavaScript \<^verbatim>\<open>Error\<close> with its message.\<close>

datatype error = Error string

text \<open>The ways in which \<^verbatim>\<open>verify\<close> throws.\<close>

datatype jwt_error = JwtMustBeProvided | JwtMalformed | InvalidSignature | TokenExpired

text \<open>The data this module signs: \<^verbatim>\<open>{ userId }\<close> or \<^verbatim>\<open>{ userId, count }\<close>.\<close>

record token_data =
  userId :: string
  tokenCount :: "nat option"

text \<open>The signed content: the data with the two time stamps the package adds.\<close>

record jwt_claims =
  claims_data :: token_data
  iat :: nat
  exp :: nat

text \<open>The time spans the module passes as \<^verbatim>\<open>expiresIn\<close>: \<^verbatim>\<open>'15min'\<close> and \<^verbatim>\<open>'7d'\<close>.\<close>

datatype timespan = Minutes nat | Days nat

fun seconds :: "timespan \<Rightarrow> nat" where
  "seconds (Minutes n) = n * 60"
| "seconds (Days n) = n * 24 * 60 * 60"

subsection \<open>Serialisation\<close>

fun dec :: "nat \<Rightarrow> string" where
  "dec n = (if n < 10 then [char_of (48 + n)] else dec (n div 10) @ [char_of (48 + n mod 10)])"

declare dec.simps [simp del]

definition is_digit :: "char \<Rightarrow> bool" where
  "is_digit c = (48 \<le> (of_char c :: nat) \<and> (of_char c :: nat) \<le> 57)"

definition undec :: "string \<Rightarrow> nat option" where
  "undec s = (if s = [] \<or> \<not> list_all is_digit s then None
              else Some (foldl (\<lambda>a c. 10 * a + (of_char c - 48)) 0 s))"

definition split_dot :: "string \<Rightarrow> (string \<times> string) option" where
  "split_dot s = (case dropWhile (\<lambda>c. c \<noteq> CHR ''.'') s of
                    [] \<Rightarrow> None
                  | _ # r \<Rightarrow> Some (takeWhile (\<lambda>c. c \<noteq> CHR ''.'') s, r))"

definition encode_count :: "nat option \<Rightarrow> string" where
  "encode_count c = (case c of None \<Rightarrow> ''-'' | Some n \<Rightarrow> dec n)"

definition decode_count :: "string \<Rightarrow> nat option option" where
  "decode_count s = (if s = ''-'' then Some None
                     else case undec s of None \<Rightarrow> None | Some n \<Rightarrow> Some (Some n))"

definition jwt_body :: "jwt_claims \<Rightarrow> string" where
  "jwt_body c = dec (iat c) @ ''.'' @ dec (exp c) @ ''.''
                @ encode_count (tokenCount (claims_data c)) @ ''.''
                @ dec (length (userId (claims_data c))) @ ''.'' @ userId (claims_data c)"

definition hmac :: "string \<Rightarrow> string \<Rightarrow> string" where
  "hmac secret body = dec (length secret) @ '':'' @ secret @ body"

definition jwt_encode :: "jwt_claims \<Rightarrow> string \<Rightarrow> string" where
  "jwt_encode c secret = jwt_body c @ ''.'' @ hmac secret (jwt_body c)"

definition jwt_decode :: "string \<Rightarrow> jwt_claims option" where
  "jwt_decode tok =
    (case split_dot tok of None \<Rightarrow> None | Some (a, r1) \<Rightarrow>
     case undec a of None \<Rightarrow> None | Some i \<Rightarrow>
     case split_dot r1 of None \<Rightarrow> None | Some (b, r2) \<Rightarrow>
     case undec b of None \<Rightarrow> None | Some e \<Rightarrow>
     case split_dot r2 of None \<Rightarrow> None | Some (k, r3) \<Rightarrow>
     case decode_count k of None \<Rightarrow> None | Some cnt \<Rightarrow>
     case split_dot r3 of None \<Rightarrow> None | Some (l, r4) \<Rightarrow>
     case undec l of None \<Rightarrow> None | Some n \<Rightarrow>
     (if length r4 \<le> n then None
      else if r4 ! n \<noteq> CHR ''.'' then None
      else Some \<lparr>claims_data = \<lparr>userId = take n r4, tokenCount = cnt\<rparr>, iat = i, exp = e\<rparr>))"

subsection \<open>The two entry points\<close>

definition jwt_sign :: "nat \<Rightarrow> token_data \<Rightarrow> string \<Rightarrow> timespan \<Rightarrow> error + string" where
  "jwt_sign now d secret expiresIn =
     (if secret = [] then Inl (Error ''secretOrPrivateKey must have a value'')
      else Inr (jwt_encode \<lparr>claims_data = d, iat = now, exp = now + seconds expiresIn\<rparr> secret))"

definition jwt_verify :: "nat \<Rightarrow> string \<Rightarrow> string \<Rightarrow> jwt_error + token_data" where
  "jwt_verify now tok secret =
    (if tok = [] then Inl JwtMustBeProvided else
     case jwt_decode tok of
       None \<Rightarrow> Inl JwtMalformed
     | Some c \<Rightarrow>
         if jwt_encode c secret \<noteq> tok then Inl InvalidSignature
         else if exp c \<le> now then Inl TokenExpired
         else Inr (claims_data c))"

text \<open>A cookie that is not there reaches \<^verbatim>\<open>verify\<close> as \<^verbatim>\<open>undefined\<close>, which it refuses.\<close>

definition jwt_verify_opt :: "nat \<Rightarrow> string option \<Rightarrow> string \<Rightarrow> jwt_error + token_data" where
  "jwt_verify_opt now tok secret =
    (case tok of None \<Rightarrow> Inl JwtMustBeProvided | Some t \<Rightarrow> jwt_verify now t secret)"

section \<open>Token generators and verifiers (utils.ts)\<close>

text \<open>The generators return the token, or the error \<^verbatim>\<open>sign\<close> throws.\<close>

definition tokenGenerator :: "nat \<Rightarrow> token_data \<Rightarrow> string \<Rightarrow> timespan \<Rightarrow> error + string" where
  "tokenGenerator now d secret expiresIn = jwt_sign now d secret expiresIn"

definition accessTokenGenerator :: "nat \<Rightarrow> string \<Rightarrow> string \<Rightarrow> error + string" where
  "accessTokenGenerator now uid secret =
     tokenGenerator now \<lparr>userId = uid, tokenCount = None\<rparr> secret (Minutes 15)"

definition refreshTokenGenerator :: "nat \<Rightarrow> string \<Rightarrow> nat \<Rightarrow> string \<Rightarrow> error + string" where
  "refreshTokenGenerator now uid n secret =
     tokenGenerator now \<lparr>userId = uid, tokenCount = Some n\<rparr> secret (Days 7)"

text \<open>\<^verbatim>\<open>try { ... verify(token, accessSecret) ... } catch { return null }\<close>\<close>

definition verifyAccessToken :: "nat \<Rightarrow> string \<Rightarrow> string \<Rightarrow> string option" where
  "verifyAccessToken now tok accessSecret =
     (case jwt_verify now tok accessSecret of
        Inr d \<Rightarrow> Some (userId d)
      | Inl _ \<Rightarrow> None)"

definition verifyRefreshToken :: "nat \<Rightarrow> string \<Rightarrow> string \<Rightarrow> (string \<times> nat option) option" where
  "verifyRefreshToken now tok refreshSecret =
     (case jwt_verify now tok refreshSecret of
        Inr d \<Rightarrow> Some (userId d, tokenCount d)
      | Inl _ \<Rightarrow> None)"

text \<open>
  The frozen bundle of the four functions with the secrets injected. The clock is the
  first argument of each.
\<close>

record TokenGenerator =
  gen_accessToken :: "nat \<Rightarrow> string \<Rightarrow> error + string"
  gen_refreshToken :: "nat \<Rightarrow> string \<Rightarrow> nat \<Rightarrow> error + string"
  gen_verifyRefreshToken :: "nat \<Rightarrow> string \<Rightarrow> (string \<times> nat option) option"
  gen_verifyAccessToken :: "nat \<Rightarrow> string \<Rightarrow> string option"

definition tokenGeneratorWithSecrets :: "string \<Rightarrow> string \<Rightarrow> TokenGenerator" where
  "tokenGeneratorWithSecrets accessSecret refreshSecret =
    \<lparr>gen_accessToken = (\<lambda>now uid. accessTokenGenerator now uid accessSecret),
     gen_refreshToken = (\<lambda>now uid n. refreshTokenGenerator now uid n refreshSecret),
     gen_verifyRefreshToken = (\<lambda>now tok. verifyRefreshToken now tok refreshSecret),
     gen_verifyAccessToken = (\<lambda>now tok. verifyAccessToken now tok accessSecret)\<rparr>"

record AuthTokens =
  accessToken :: string
  refreshToken :: string

text \<open>
  The object literal evaluates its fields in order: the access token is generated first,
  and an error thrown by either generator leaves \<open>signInVerifiedUser\<close>.
\<close>

definition signInVerifiedUser :: "nat \<Rightarrow> string \<Rightarrow> nat \<Rightarrow> TokenGenerator \<Rightarrow> error + AuthTokens" where
  "signInVerifiedUser now uid n tg =
    (case gen_accessToken tg now uid of
       Inl err \<Rightarrow> Inl err
     | Inr a \<Rightarrow>
        (case gen_refreshToken tg now uid n of
           Inl err \<Rightarrow> Inl err
         | Inr r \<Rightarrow> Inr \<lparr>accessToken = a, refreshToken = r\<rparr>))"

section \<open>Cookies and the outbound response\<close>

text \<open>
  \<^verbatim>\<open>serialize(name, value, { maxAge })\<close> of the \<^verbatim>\<open>cookie\<close> package gives the text
  of one \<^verbatim>\<open>Set-Cookie\<close> entry, \<^verbatim>\<open>name=value; Max-Age=n\<close>. The response is
  its \<^verbatim>\<open>Set-Cookie\<close> header: \<open>None\<close> until \<^verbatim>\<open>setHeader\<close> writes it.
\<close>

definition serialize :: "string \<Rightarrow> string \<Rightarrow> nat \<Rightarrow> string" where
  "serialize name val maxAge = name @ ''='' @ val @ ''; Max-Age='' @ dec maxAge"

record response =
  set_cookie :: "string list option"

definition addTokensToCookies :: "AuthTokens \<Rightarrow> response \<Rightarrow> response" where
  "addTokensToCookies toks res =
     res\<lparr>set_cookie := Some
       [serialize ''refresh-token'' (refreshToken toks) (60 * 60 * 24 * 7),
        serialize ''access-token'' (accessToken toks) (60 * 60 * 15)]\<rparr>"

section \<open>The user store (models.ts)\<close>

text \<open>
  A user document. The \<^verbatim>\<open>_id\<close> is an ObjectID, kept here in its hex-string form, so
  that \<^verbatim>\<open>new ObjectID(id)\<close>, \<^verbatim>\<open>toHexString()\<close> and \<^verbatim>\<open>toString()\<close> are the
  identity. Strings that are not ObjectIDs, which the driver refuses, and failures of the
  database are outside the model. The collection is the list of its documents;
  \<^verbatim>\<open>findOne\<close> returns the first document that matches.
\<close>

record user =
  u_id :: string
  email :: string
  passwordHash :: string
  count :: nat

definition findUserByEmail :: "user list \<Rightarrow> string \<Rightarrow> user option" where
  "findUserByEmail users e = find (\<lambda>u. email u = e) users"

definition findUserById :: "user list \<Rightarrow> string \<Rightarrow> user option" where
  "findUserById users i = find (\<lambda>u. u_id u = i) users"

definition isUser :: "user list \<Rightarrow> string \<Rightarrow> bool" where
  "isUser users e = (findUserByEmail users e \<noteq> None)"

text \<open>
  \<^verbatim>\<open>bcryptjs\<close>: the hash text starts with the salt (29 characters), and
  \<^verbatim>\<open>compare\<close> hashes the candidate password with the salt of the stored hash.
  The digest is ideal: it is the salted password itself.
\<close>

definition bcrypt_hash :: "string \<Rightarrow> string \<Rightarrow> string" where
  "bcrypt_hash password salt = salt @ password"

definition compare :: "string \<Rightarrow> string \<Rightarrow> bool" where
  "compare password h = (bcrypt_hash password (take 29 h) = h)"

text \<open>
  \<^verbatim>\<open>createNewUser\<close>: the fresh ObjectID and the salt come from the driver and from
  bcrypt; they are arguments here. \<^verbatim>\<open>insertOne\<close> appends the document and reports its
  \<^verbatim>\<open>_id\<close> as \<^verbatim>\<open>insertedId\<close>.
\<close>

definition createNewUser :: "string \<Rightarrow> string \<Rightarrow> user list \<Rightarrow> string \<Rightarrow> string \<Rightarrow> user \<times> user list" where
  "createNewUser newId salt users e password =
    (let doc = \<lparr>u_id = newId, email = e, passwordHash = bcrypt_hash password salt, count = 0\<rparr>;
         insertedId = u_id doc
     in (doc\<lparr>u_id := insertedId\<rparr>, users @ [doc]))"

text \<open>
  The update documents this module sends: \<^verbatim>\<open>{ $set: { count: n } }\<close>.
  \<^verbatim>\<open>updateOne\<close> changes the first document with the given \<^verbatim>\<open>_id\<close>; its
  \<^verbatim>\<open>modifiedCount\<close> is 1 when that document was changed, 0 when none matched or
  the document already had the value.
\<close>

datatype update_doc = Set_count nat

fun updateOne :: "user list \<Rightarrow> string \<Rightarrow> update_doc \<Rightarrow> nat \<times> user list" where
  "updateOne [] i d = (0, [])"
| "updateOne (u # us) i (Set_count n) =
    (if u_id u = i then ((if count u = n then 0 else 1), u\<lparr>count := n\<rparr> # us)
     else (case updateOne us i (Set_count n) of (m, us') \<Rightarrow> (m, u # us')))"

definition updateUser :: "user list \<Rightarrow> string \<Rightarrow> update_doc \<Rightarrow> bool \<times> user list" where
  "updateUser users i d = (case updateOne users i d of (modifiedCount, users') \<Rightarrow> (modifiedCount = 1, users'))"

section \<open>Resolving the active user of a request (utils.ts)\<close>

text \<open>
  Of the inbound request the function reads the \<^verbatim>\<open>authorization\<close> header and the
  cookies; \<open>cookies\<close> is the result of \<^verbatim>\<open>parse(req.headers.cookie || '')\<close>, read with
  \<open>map_of\<close> (the first entry of a name wins). The function returns the user, or
  \<open>None\<close> for \<^verbatim>\<open>null\<close>, together with the outbound response as it leaves it. One
  reading of the clock, \<open>now\<close>, serves the whole call. Step 4 runs inside
  \<^verbatim>\<open>try { ... } catch {}\<close>: an error thrown there, by \<^verbatim>\<open>verify\<close> or by a
  generator, is swallowed and the function goes on to \<^verbatim>\<open>return null\<close>.
\<close>

record request =
  authorization :: "string option"
  cookies :: "(string \<times> string) list"

text \<open>
  JavaScript truthiness of a \<^verbatim>\<open>string | undefined\<close>: the value is there and is
  not the empty string. In \<open>getActiveUser\<close> below, the \<open>case\<close> on a truthy header only
  names its text; its \<open>None\<close> branch is never taken.
\<close>

definition truthy :: "string option \<Rightarrow> bool" where
  "truthy v = (case v of None \<Rightarrow> False | Some s \<Rightarrow> s \<noteq> [])"

text \<open>\<^verbatim>\<open>s.replace(pat, rep)\<close> with a string pattern: the first occurrence only.\<close>

fun replace :: "string \<Rightarrow> string \<Rightarrow> string \<Rightarrow> string" where
  "replace pat rep [] = (if pat = [] then rep else [])"
| "replace pat rep (c # cs) =
    (if take (length pat) (c # cs) = pat then rep @ drop (length pat) (c # cs)
     else c # replace pat rep cs)"

definition getActiveUser ::
  "nat \<Rightarrow> request \<Rightarrow> response \<Rightarrow> string \<Rightarrow> string \<Rightarrow> user list \<Rightarrow> user option \<times> response" where
  "getActiveUser now req res accessTokenSecret refreshTokenSecret users =
    (let oldAccessToken = map_of (cookies req) ''access-token'';
         oldRefreshToken = map_of (cookies req) ''refresh-token'';
         bearerToken = authorization req
     in
     if truthy bearerToken then
       (case bearerToken of
          None \<Rightarrow> (None, res)
        | Some b \<Rightarrow>
           (let token = replace ''Bearer '' [] b in
            case jwt_verify now token accessTokenSecret of
              Inr d \<Rightarrow> (findUserById users (userId d), res)
            | Inl _ \<Rightarrow> (None, res)))
     else if \<not> truthy oldAccessToken \<and> \<not> truthy oldRefreshToken then (None, res)
     else
       case jwt_verify_opt now oldAccessToken accessTokenSecret of
         Inr d \<Rightarrow> (findUserById users (userId d), res)
       | Inl _ \<Rightarrow>
          (case jwt_verify_opt now oldRefreshToken refreshTokenSecret of
             Inl _ \<Rightarrow> (None, res)
           | Inr d \<Rightarrow>
              (case findUserById users (userId d) of
                 None \<Rightarrow> (None, res)
               | Some user \<Rightarrow>
                  if tokenCount d = Some (count user) then
                    (let tokenGenerator = tokenGeneratorWithSecrets accessTokenSecret refreshTokenSecret
                     in case gen_accessToken tokenGenerator now (u_id user) of
                          Inl _ \<Rightarrow> (None, res)
                        | Inr newAccessToken \<Rightarrow>
                           (case gen_refreshToken tokenGenerator now (u_id user) (count user) of
                              Inl _ \<Rightarrow> (None, res)
                            | Inr newRefreshToken \<Rightarrow>
                               (Some user,
                                addTokensToCookies
                                  \<lparr>accessToken = newAccessToken,
                                   refreshToken = newRefreshToken\<rparr> res)))
                  else (None, res))))"

section \<open>Sign-in helpers (utils.ts)\<close>

record AuthPayload =
  payload_refreshToken :: string
  payload_accessToken :: string
  payload_count :: nat

text \<open>
  \<^verbatim>\<open>res\<close> and \<^verbatim>\<open>useCookies\<close> are optional arguments; a caller that leaves them out
  passes \<open>None\<close> and \<open>False\<close>. The response is returned as the call leaves it.
\<close>

definition signInHelper ::
  "nat \<Rightarrow> string \<Rightarrow> nat \<Rightarrow> TokenGenerator \<Rightarrow> response option \<Rightarrow> bool
     \<Rightarrow> error + AuthPayload \<times> response option" where
  "signInHelper now uid n tg res useCookies =
    (case signInVerifiedUser now uid n tg of
       Inl err \<Rightarrow> Inl err
     | Inr toks \<Rightarrow>
        Inr (\<lparr>payload_refreshToken = refreshToken toks,
              payload_accessToken = accessToken toks,
              payload_count = n\<rparr>,
             (case res of
                Some r \<Rightarrow> if useCookies then Some (addTokensToCookies toks r) else Some r
              | None \<Rightarrow> None)))"

definition getValidatedUser :: "string \<Rightarrow> string \<Rightarrow> user list \<Rightarrow> error + user" where
  "getValidatedUser e password users =
    (case findUserByEmail users e of
       None \<Rightarrow> Inl (Error ''Invalid email provided'')
     | Some user \<Rightarrow>
         if \<not> compare password (passwordHash user)
         then Inl (Error ''Invalid credential combination'')
         else Inr user)"

section \<open>The resolvers (typeDefs.ts)\<close>

text \<open>
  The context of a resolver: the outbound response, the user collection behind
  \<^verbatim>\<open>models.users\<close> as it is when the resolver runs, the user resolved for the request,
  and the token generator. A resolver returns its result, or the error it throws, and
  the context as it leaves it.
\<close>

record AuthContext =
  ctx_res :: response
  ctx_users :: "user list"
  ctx_user :: "user option"
  ctx_tokenGenerator :: TokenGenerator

text \<open>\<^verbatim>\<open>Boolean(cookies)\<close> of the optional boolean argument.\<close>

definition Boolean :: "bool option \<Rightarrow> bool" where
  "Boolean b = (b = Some True)"

text \<open>
  \<open>signUp\<close> has inserted the new user when it calls \<open>signInHelper\<close>: if that throws,
  the error leaves the resolver and the user stays in the collection.
\<close>

definition signUpMutation ::
  "nat \<Rightarrow> string \<Rightarrow> string \<Rightarrow> string \<Rightarrow> string \<Rightarrow> bool option \<Rightarrow> AuthContext
     \<Rightarrow> (error + AuthPayload) \<times> AuthContext" where
  "signUpMutation now newId salt e password cookies_arg ctx =
    (if isUser (ctx_users ctx) e
     then (Inl (Error (''User with '' @ e @ '' already exists'')), ctx)
     else
       case createNewUser newId salt (ctx_users ctx) e password of (newUser, users') \<Rightarrow>
       case signInHelper now (u_id newUser) (count newUser) (ctx_tokenGenerator ctx)
              (Some (ctx_res ctx)) (Boolean cookies_arg) of
         Inl err \<Rightarrow> (Inl err, ctx\<lparr>ctx_users := users'\<rparr>)
       | Inr (payload, res') \<Rightarrow>
          (Inr payload,
           ctx\<lparr>ctx_users := users',
               ctx_res := (case res' of Some r \<Rightarrow> r | None \<Rightarrow> ctx_res ctx)\<rparr>))"

definition signInMutation ::
  "nat \<Rightarrow> string \<Rightarrow> string \<Rightarrow> bool option \<Rightarrow> AuthContext \<Rightarrow> error + AuthPayload \<times> AuthContext" where
  "signInMutation now e password cookies_arg ctx =
    (case getValidatedUser e password (ctx_users ctx) of
       Inl err \<Rightarrow> Inl err
     | Inr user \<Rightarrow>
        (case signInHelper now (u_id user) (count user) (ctx_tokenGenerator ctx)
                (Some (ctx_res ctx)) (Boolean cookies_arg) of
           Inl err \<Rightarrow> Inl err
         | Inr (payload, res') \<Rightarrow>
            Inr (payload, ctx\<lparr>ctx_res := (case res' of Some r \<Rightarrow> r | None \<Rightarrow> ctx_res ctx)\<rparr>)))"

text \<open>
  \<open>refreshTokens\<close> returns the payload, \<open>None\<close> for \<^verbatim>\<open>null\<close>, or the error that
  \<open>signInHelper\<close> throws; it passes neither the response nor the cookie flag on.
\<close>

definition refreshTokensMutation ::
  "nat \<Rightarrow> string \<Rightarrow> AuthContext \<Rightarrow> (error + AuthPayload option) \<times> AuthContext" where
  "refreshTokensMutation now refreshToken_arg ctx =
    (case gen_verifyRefreshToken (ctx_tokenGenerator ctx) now refreshToken_arg of
       None \<Rightarrow> (Inr None, ctx)
     | Some (data_userId, data_count) \<Rightarrow>
        (case findUserById (ctx_users ctx) data_userId of
           None \<Rightarrow> (Inr None, ctx)
         | Some user \<Rightarrow>
            (case data_count of
               None \<Rightarrow> (Inr None, ctx)
             | Some n \<Rightarrow>
                if count user = n
                then (case signInHelper now data_userId n (ctx_tokenGenerator ctx) None False of
                        Inl err \<Rightarrow> (Inl err, ctx)
                      | Inr (payload, _) \<Rightarrow> (Inr (Some payload), ctx))
                else (Inr None, ctx))))"

definition invalidateTokensMutation :: "AuthContext \<Rightarrow> bool \<times> AuthContext" where
  "invalidateTokensMutation ctx =
    (case ctx_user ctx of
       Some user \<Rightarrow>
        (case updateUser (ctx_users ctx) (u_id user) (Set_count (count user + 1)) of
           (ok, users') \<Rightarrow> (ok, ctx\<lparr>ctx_users := users'\<rparr>))
     | None \<Rightarrow> (False, ctx))"

section \<open>Example values\<close>

text \<open>A user, her tokens issued at time 1000, and a response without cookies.\<close>

abbreviation (input) alice :: user where
  "alice \<equiv> \<lparr>u_id = ''5d1f'', email = ''a@x.com'', passwordHash = ''$2a$10$abcdefghijklmnopqrstuvpw'', count = 3\<rparr>"

abbreviation (input) alice_refresh :: string where
  "alice_refresh \<equiv> ''1000.605800.3.4.5d1f.7:r3fresh1000.605800.3.4.5d1f''"

abbreviation (input) alice_access :: string where
  "alice_access \<equiv> ''1000.1900.-.4.5d1f.6:s3cret1000.1900.-.4.5d1f''"

abbreviation (input) no_cookies :: response where
  "no_cookies \<equiv> \<lparr>set_cookie = None\<rparr>"

text \<open>Her access token with \<open>Bearer \<close> written into the middle of it.\<close>

abbreviation (input) split_header :: string where
  "split_header \<equiv> ''1000.1900.-.4.5dBearer 1f.6:s3cret1000.1900.-.4.5d1f''"

text \<open>The context of a resolver running for her request.\<close>

abbreviation (input) alice_ctx :: AuthContext where
  "alice_ctx \<equiv> \<lparr>ctx_res = no_cookies, ctx_users = [alice], ctx_user = Some alice,
                 ctx_tokenGenerator = tokenGeneratorWithSecrets ''s3cret'' ''r3fresh''\<rparr>"

section \<open>Properties of the codec\<close>

lemma is_digit_digit: "(d::nat) < 10 \<Longrightarrow> is_digit (char_of (48 + d))"
  by (simp add: is_digit_def)

lemma dec_digits: "list_all is_digit (dec n)"
proof (induction n rule: dec.induct)
  case (1 n)
  show ?case
  proof (cases "n < 10")
    case True
    then show ?thesis by (simp add: dec.simps [of n] is_digit_digit)
  next
    case False
    with 1 show ?thesis by (simp add: dec.simps [of n] is_digit_digit)
  qed
qed

lemma dec_nonempty: "dec n \<noteq> []"
  by (simp add: dec.simps [of n])

lemma dec_no_dot: "CHR ''.'' \<notin> set (dec n)"
proof
  assume "CHR ''.'' \<in> set (dec n)"
  with dec_digits [of n] have "is_digit CHR ''.''"
    by (simp add: list_all_iff)
  then show False by (simp add: is_digit_def)
qed

lemma dec_value: "foldl (\<lambda>a c. 10 * a + (of_char c - 48)) 0 (dec n) = n"
proof (induction n rule: dec.induct)
  case (1 n)
  show ?case
  proof (cases "n < 10")
    case True
    then show ?thesis by (simp add: dec.simps [of n])
  next
    case False
    with 1 show ?thesis by (simp add: dec.simps [of n])
  qed
qed

lemma undec_dec: "undec (dec n) = Some n"
  by (simp add: undec_def dec_nonempty dec_digits dec_value)

lemma split_dot_append: "CHR ''.'' \<notin> set a \<Longrightarrow> split_dot (a @ CHR ''.'' # r) = Some (a, r)"
proof -
  assume nodot: "CHR ''.'' \<notin> set a"
  then have "dropWhile (\<lambda>c. c \<noteq> CHR ''.'') (a @ CHR ''.'' # r) = CHR ''.'' # r"
    by (subst dropWhile_append2) auto
  moreover from nodot have "takeWhile (\<lambda>c. c \<noteq> CHR ''.'') (a @ CHR ''.'' # r) = a"
    by (subst takeWhile_append2) auto
  ultimately show ?thesis by (simp add: split_dot_def)
qed

lemma split_dot_dec: "split_dot (dec n @ CHR ''.'' # r) = Some (dec n, r)"
  by (rule split_dot_append) (rule dec_no_dot)

lemma decode_encode_count: "decode_count (encode_count c) = Some c"
proof (cases c)
  case None
  then show ?thesis by (simp add: decode_count_def encode_count_def)
next
  case (Some n)
  have "dec n \<noteq> ''-''"
  proof
    assume "dec n = ''-''"
    with dec_digits [of n] show False by (simp add: is_digit_def)
  qed
  with Some show ?thesis by (simp add: decode_count_def encode_count_def undec_dec)
qed

lemma encode_count_no_dot: "CHR ''.'' \<notin> set (encode_count c)"
  by (cases c) (simp_all add: encode_count_def dec_no_dot)

lemma jwt_decode_encode: "jwt_decode (jwt_encode c secret) = Some c"
proof -
  have "split_dot (encode_count k @ CHR ''.'' # r) = Some (encode_count k, r)" for k r
    by (rule split_dot_append) (rule encode_count_no_dot)
  then show ?thesis
    by (simp add: jwt_decode_def jwt_encode_def jwt_body_def split_dot_dec undec_dec
        decode_encode_count nth_append)
qed

lemma jwt_encode_nonempty: "jwt_encode c secret \<noteq> []"
  by (simp add: jwt_encode_def)

lemma jwt_verify_encode:
  "jwt_verify t (jwt_encode c secret) secret =
     (if exp c \<le> t then Inl TokenExpired else Inr (claims_data c))"
  by (simp add: jwt_verify_def jwt_decode_encode jwt_encode_nonempty)

lemma accessTokenGenerator_Inr:
  "secret \<noteq> [] \<Longrightarrow>
   accessTokenGenerator now uid secret =
     Inr (jwt_encode \<lparr>claims_data = \<lparr>userId = uid, tokenCount = None\<rparr>,
                      iat = now, exp = now + 900\<rparr> secret)"
  by (simp add: accessTokenGenerator_def tokenGenerator_def jwt_sign_def)

lemma refreshTokenGenerator_Inr:
  "secret \<noteq> [] \<Longrightarrow>
   refreshTokenGenerator now uid n secret =
     Inr (jwt_encode \<lparr>claims_data = \<lparr>userId = uid, tokenCount = Some n\<rparr>,
                      iat = now, exp = now + 604800\<rparr> secret)"
  by (simp add: refreshTokenGenerator_def tokenGenerator_def jwt_sign_def)

lemma accessTokenGenerator_empty:
  "accessTokenGenerator now uid [] = Inl (Error ''secretOrPrivateKey must have a value'')"
  by (simp add: accessTokenGenerator_def tokenGenerator_def jwt_sign_def)

lemma refreshTokenGenerator_empty:
  "refreshTokenGenerator now uid n [] = Inl (Error ''secretOrPrivateKey must have a value'')"
  by (simp add: refreshTokenGenerator_def tokenGenerator_def jwt_sign_def)

lemma accessTokenGenerator_Inr_iff:
  "(\<exists>tok. accessTokenGenerator now uid secret = Inr tok) = (secret \<noteq> [])"
  by (cases "secret = []") (simp_all add: accessTokenGenerator_empty accessTokenGenerator_Inr)

lemma refreshTokenGenerator_Inr_iff:
  "(\<exists>tok. refreshTokenGenerator now uid n secret = Inr tok) = (secret \<noteq> [])"
  by (cases "secret = []") (simp_all add: refreshTokenGenerator_empty refreshTokenGenerator_Inr)

lemma verifyAccessToken_issued:
  assumes "accessTokenGenerator now uid secret = Inr tok"
  shows "verifyAccessToken t tok secret = (if now + 900 \<le> t then None else Some uid)"
proof -
  from assms have "secret \<noteq> []"
    using accessTokenGenerator_Inr_iff by blast
  from accessTokenGenerator_Inr [OF this, of now uid] assms
  have "tok = jwt_encode \<lparr>claims_data = \<lparr>userId = uid, tokenCount = None\<rparr>,
                      iat = now, exp = now + 900\<rparr> secret" by simp
  then show ?thesis by (simp add: verifyAccessToken_def jwt_verify_encode)
qed

lemma verifyRefreshToken_issued:
  assumes "refreshTokenGenerator now uid n secret = Inr tok"
  shows "verifyRefreshToken t tok secret = (if now + 604800 \<le> t then None else Some (uid, Some n))"
proof -
  from assms have "secret \<noteq> []"
    using refreshTokenGenerator_Inr_iff by blast
  from refreshTokenGenerator_Inr [OF this, of now uid n] assms
  have "tok = jwt_encode \<lparr>claims_data = \<lparr>userId = uid, tokenCount = Some n\<rparr>,
                      iat = now, exp = now + 604800\<rparr> secret" by simp
  then show ?thesis by (simp add: verifyRefreshToken_def jwt_verify_encode)
qed

lemma verifyRefreshToken_any_time:
  "verifyRefreshToken t1 tok secret = Some x \<Longrightarrow> verifyRefreshToken t2 tok secret = Some y
     \<Longrightarrow> x = y"
  by (auto simp: verifyRefreshToken_def jwt_verify_def split: sum.splits option.splits if_splits)

lemma jwt_verify_Inr_iff:
  "(jwt_verify now tok secret = Inr d) = (\<exists>c. tok = jwt_encode c secret \<and> now < exp c \<and> claims_data c = d)"
proof
  assume "jwt_verify now tok secret = Inr d"
  then show "\<exists>c. tok = jwt_encode c secret \<and> now < exp c \<and> claims_data c = d"
    by (auto simp: jwt_verify_def split: if_splits option.splits)
next
  assume "\<exists>c. tok = jwt_encode c secret \<and> now < exp c \<and> claims_data c = d"
  then show "jwt_verify now tok secret = Inr d"
    by (auto simp: jwt_verify_def jwt_decode_encode jwt_encode_nonempty)
qed

lemma dec_takeWhile: "takeWhile is_digit (dec n @ CHR '':'' # r) = dec n"
proof -
  have "\<And>x. x \<in> set (dec n) \<Longrightarrow> is_digit x"
    using dec_digits [of n] by (simp add: list_all_iff)
  then have "takeWhile is_digit (dec n @ CHR '':'' # r) = dec n @ takeWhile is_digit (CHR '':'' # r)"
    by (rule takeWhile_append2)
  then show ?thesis by (simp add: is_digit_def)
qed

lemma hmac_inj_secret: "hmac s body = hmac s' body \<Longrightarrow> s = s'"
proof -
  assume eq: "hmac s body = hmac s' body"
  then have "takeWhile is_digit (hmac s body) = takeWhile is_digit (hmac s' body)" by simp
  then have "dec (length s) = dec (length s')"
    by (simp add: hmac_def dec_takeWhile)
  then have "undec (dec (length s)) = undec (dec (length s'))" by simp
  then have "length s = length s'" by (simp add: undec_dec)
  with eq show ?thesis by (simp add: hmac_def \<open>dec (length s) = dec (length s')\<close>)
qed

lemma jwt_encode_inj_secret: "jwt_encode c s = jwt_encode c s' \<Longrightarrow> s = s'"
  by (auto simp: jwt_encode_def dest: hmac_inj_secret)

lemma verify_err: "jwt_verify now tok secret = Inl e \<Longrightarrow>
  verifyAccessToken now tok secret = None \<and> verifyRefreshToken now tok secret = None"
  by (simp add: verifyAccessToken_def verifyRefreshToken_def)

lemma verify_ok: "jwt_verify now tok secret = Inr d \<Longrightarrow>
  verifyAccessToken now tok secret = Some (userId d) \<and>
        verifyRefreshToken now tok secret = Some (userId d, tokenCount d)"
  by (simp add: verifyAccessToken_def verifyRefreshToken_def)

lemma jwt_verify_valid_iff: "(\<exists>d. jwt_verify now tok secret = Inr d) =
        (\<exists>c. tok = jwt_encode c secret \<and> now < exp c)"
  unfolding jwt_verify_Inr_iff by blast

lemma jwt_verify_corrupt:
  "jwt_decode tok = None \<Longrightarrow> jwt_verify now tok secret = Inl (if tok = [] then JwtMustBeProvided else JwtMalformed)"
  by (simp add: jwt_verify_def)

lemma jwt_verify_badsig:
  "other \<noteq> secret \<Longrightarrow> jwt_verify now (jwt_encode c other) secret = Inl InvalidSignature"
  using jwt_encode_inj_secret [of c secret other]
  by (auto simp: jwt_verify_def jwt_decode_encode jwt_encode_nonempty)

lemma jwt_verify_expired:
  "exp c \<le> now \<Longrightarrow> jwt_verify now (jwt_encode c secret) secret = Inl TokenExpired"
  by (simp add: jwt_verify_def jwt_decode_encode jwt_encode_nonempty)

subsection \<open>Evaluating the codec on literals\<close>

lemma digit_chars:
  "char_of (48::nat) = CHR ''0''" "char_of (49::nat) = CHR ''1''" "char_of (50::nat) = CHR ''2''"
  "char_of (51::nat) = CHR ''3''" "char_of (52::nat) = CHR ''4''" "char_of (53::nat) = CHR ''5''"
  "char_of (54::nat) = CHR ''6''" "char_of (55::nat) = CHR ''7''" "char_of (56::nat) = CHR ''8''"
  "char_of (57::nat) = CHR ''9''"
  by code_simp+

lemmas encode_eval = jwt_encode_def jwt_body_def hmac_def encode_count_def dec.simps digit_chars

lemmas decode_eval = jwt_decode_def split_dot_def undec_def is_digit_def decode_count_def

lemma dec_604800: "dec 604800 = ''604800''"
  by (simp add: dec.simps digit_chars)

lemma dec_54000: "dec 54000 = ''54000''"
  by (simp add: dec.simps digit_chars)

section \<open>Properties of the resolver\<close>

lemma getActiveUser_bearer:
  assumes "authorization req = Some h" and "h \<noteq> []"
  shows "getActiveUser now req res accessTokenSecret refreshTokenSecret users =
           ((case verifyAccessToken now (replace ''Bearer '' [] h) accessTokenSecret of
               Some uid \<Rightarrow> findUserById users uid
             | None \<Rightarrow> None), res)"
  using assms
  by (simp add: getActiveUser_def truthy_def verifyAccessToken_def Let_def split: sum.splits)

lemma addTokensToCookies_header:
  "addTokensToCookies toks res =
     res\<lparr>set_cookie := Some
       [''refresh-token='' @ refreshToken toks @ ''; Max-Age=604800'',
        ''access-token='' @ accessToken toks @ ''; Max-Age=54000'']\<rparr>"
  by (simp add: addTokensToCookies_def serialize_def dec_604800 dec_54000)

lemma getActiveUser_cookies:
  assumes "\<not> truthy (authorization req)"
    and "jwt_verify_opt now (map_of (cookies req) ''access-token'') accessTokenSecret = Inl e"
  shows "getActiveUser now req res accessTokenSecret refreshTokenSecret users =
    (case jwt_verify_opt now (map_of (cookies req) ''refresh-token'') refreshTokenSecret of
       Inl _ \<Rightarrow> (None, res)
     | Inr d \<Rightarrow>
        (case findUserById users (userId d) of
           None \<Rightarrow> (None, res)
         | Some user \<Rightarrow>
            if tokenCount d = Some (count user) then
              (case accessTokenGenerator now (u_id user) accessTokenSecret of
                 Inl _ \<Rightarrow> (None, res)
               | Inr a \<Rightarrow>
                  (case refreshTokenGenerator now (u_id user) (count user) refreshTokenSecret of
                     Inl _ \<Rightarrow> (None, res)
                   | Inr r \<Rightarrow>
                      (Some user, addTokensToCookies \<lparr>accessToken = a, refreshToken = r\<rparr> res)))
            else (None, res)))"
proof (cases "truthy (map_of (cookies req) ''refresh-token'')")
  case True
  with assms show ?thesis
    by (simp add: getActiveUser_def Let_def tokenGeneratorWithSecrets_def
        split: sum.splits option.splits)
next
  case False
  then have "jwt_verify_opt now (map_of (cookies req) ''refresh-token'') refreshTokenSecret
      = Inl JwtMustBeProvided"
    by (auto simp: truthy_def jwt_verify_opt_def jwt_verify_def split: option.splits)
  with assms False show ?thesis
    by (simp add: getActiveUser_def Let_def)
qed

lemma find_Some_id: "findUserById users i = Some u \<Longrightarrow> u_id u = i"
  by (auto simp: findUserById_def find_Some_iff)



lemma jwt_verify_opt_access_fails:
  assumes "\<forall>t. oldAccessToken = Some t \<longrightarrow> verifyAccessToken now t secret = None"
  shows "\<exists>e. jwt_verify_opt now oldAccessToken secret = Inl e"
  using assms
  by (cases oldAccessToken) (auto simp: jwt_verify_opt_def verifyAccessToken_def split: sum.splits)

section \<open>The example tokens\<close>

lemma alice_refresh_decode:
  "jwt_decode alice_refresh =
     Some \<lparr>claims_data = \<lparr>userId = ''5d1f'', tokenCount = Some 3\<rparr>, iat = 1000, exp = 605800\<rparr>"
  by (simp add: decode_eval)

lemma alice_refresh_encode:
  "jwt_encode \<lparr>claims_data = \<lparr>userId = ''5d1f'', tokenCount = Some 3\<rparr>, iat = 1000, exp = 605800\<rparr>
     ''r3fresh'' = alice_refresh"
  by (simp add: encode_eval)

lemma alice_refresh_verify:
  "verifyRefreshToken 1500 alice_refresh ''r3fresh'' = Some (''5d1f'', Some 3)"
  by (simp add: verifyRefreshToken_def jwt_verify_def alice_refresh_decode alice_refresh_encode)

lemma alice_access_decode:
  "jwt_decode alice_access =
     Some \<lparr>claims_data = \<lparr>userId = ''5d1f'', tokenCount = None\<rparr>, iat = 1000, exp = 1900\<rparr>"
  by (simp add: decode_eval)

lemma alice_access_encode:
  "jwt_encode \<lparr>claims_data = \<lparr>userId = ''5d1f'', tokenCount = None\<rparr>, iat = 1000, exp = 1900\<rparr>
     ''s3cret'' = alice_access"
  by (simp add: encode_eval)

lemma alice_access_verify:
  "verifyAccessToken now alice_access ''s3cret'' = (if 1900 \<le> now then None else Some ''5d1f'')"
  by (simp add: verifyAccessToken_def jwt_verify_def alice_access_decode alice_access_encode)

section \<open>Properties of string replacement\<close>

lemma replace_no_occurrence:
  "pat \<noteq> [] \<Longrightarrow> \<forall>i. take (length pat) (drop i s) \<noteq> pat \<Longrightarrow> replace pat rep s = s"
proof (induction s)
  case Nil
  then show ?case by simp
next
  case (Cons c cs)
  from Cons.prems(2) have here: "take (length pat) (c # cs) \<noteq> pat"
    by (metis drop0)
  have "\<forall>i. take (length pat) (drop i cs) \<noteq> pat"
  proof
    fix i
    from Cons.prems(2) have "take (length pat) (drop (Suc i) (c # cs)) \<noteq> pat" by blast
    then show "take (length pat) (drop i cs) \<noteq> pat" by simp
  qed
  with Cons.IH Cons.prems(1) have "replace pat rep cs = cs" by simp
  with here show ?case by simp
qed

lemma replace_prefix: "replace pat [] (pat @ s) = s"
proof (cases "pat @ s")
  case Nil
  then show ?thesis by simp
next
  case (Cons a l)
  have t: "take (length pat) (a # l) = pat" and d: "drop (length pat) (a # l) = s"
    using Cons [symmetric] by simp_all
  show ?thesis unfolding Cons using t d by simp
qed

lemma replace_first_occurrence:
  "pat \<noteq> [] \<Longrightarrow> \<forall>i<length p. take (length pat) (drop i (p @ pat @ s)) \<noteq> pat
     \<Longrightarrow> replace pat rep (p @ pat @ s) = p @ rep @ s"
proof (induction p)
  case Nil
  then obtain c cs where "pat @ s = c # cs" by (cases pat) auto
  moreover have "take (length pat) (pat @ s) = pat" "drop (length pat) (pat @ s) = s" by simp_all
  ultimately show ?case by (simp del: take_append drop_append) 
next
  case (Cons c p)
  from Cons.prems(2) have "take (length pat) (drop 0 ((c # p) @ pat @ s)) \<noteq> pat" by blast
  then have here: "take (length pat) (c # p @ pat @ s) \<noteq> pat" by simp
  have "\<forall>i<length p. take (length pat) (drop i (p @ pat @ s)) \<noteq> pat"
  proof (intro allI impI)
    fix i assume "i < length p"
    then have "Suc i < length (c # p)" by simp
    with Cons.prems(2) have "take (length pat) (drop (Suc i) ((c # p) @ pat @ s)) \<noteq> pat" by blast
    then show "take (length pat) (drop i (p @ pat @ s)) \<noteq> pat" by simp
  qed
  with Cons.IH Cons.prems(1) have "replace pat rep (p @ pat @ s) = p @ rep @ s" by simp
  with here show ?case by simp
qed

lemma no_occurrence_missing_char: "c \<notin> set s \<Longrightarrow> take n (drop i s) \<noteq> c # r"
  by (metis in_set_dropD in_set_takeD list.set_intros(1))

lemma no_occurrence_before:
  assumes "i < length p" and "c \<notin> set p"
  shows "take (Suc n) (drop i (p @ t)) \<noteq> c # r"
proof -
  from assms(1) have "drop i (p @ t) = p ! i # drop (Suc i) p @ t"
    by (simp add: Cons_nth_drop_Suc)
  moreover from assms have "p ! i \<noteq> c" by (metis nth_mem)
  ultimately show ?thesis by simp
qed

section \<open>Properties of the store and the resolvers\<close>

lemma updateOne_find:
  "findUserById users i = Some stored \<Longrightarrow>
   updateOne users i (Set_count n) = (m, users') \<Longrightarrow>
   findUserById users' i = Some (stored\<lparr>count := n\<rparr>) \<and> m = (if count stored = n then 0 else 1)"
proof (induction users arbitrary: m users')
  case Nil
  then show ?case by (simp add: findUserById_def)
next
  case (Cons u us)
  show ?case
  proof (cases "u_id u = i")
    case True
    with Cons.prems show ?thesis by (auto simp: findUserById_def)
  next
    case False
    obtain m0 us0 where rec: "updateOne us i (Set_count n) = (m0, us0)"
      by (cases "updateOne us i (Set_count n)")
    from False Cons.prems(1) have "findUserById us i = Some stored"
      by (simp add: findUserById_def)
    from Cons.IH [OF this rec] False Cons.prems(2) rec show ?thesis
      by (auto simp: findUserById_def)
  qed
qed

lemma updateOne_missing:
  "findUserById users i = None \<Longrightarrow> updateOne users i (Set_count n) = (0, users)"
proof (induction users)
  case Nil
  then show ?case by simp
next
  case (Cons u us)
  then show ?case by (auto simp: findUserById_def split: if_splits)
qed

lemma invalidateTokens_effect:
  assumes "ctx_user ctx = Some user"
    and "findUserById (ctx_users ctx) (u_id user) = Some stored"
  shows "fst (invalidateTokensMutation ctx) = (count stored \<noteq> count user + 1)"
    and "findUserById (ctx_users (snd (invalidateTokensMutation ctx))) (u_id user)
           = Some (stored\<lparr>count := count user + 1\<rparr>)"
    and "ctx_user (snd (invalidateTokensMutation ctx)) = Some user"
    and "ctx_res (snd (invalidateTokensMutation ctx)) = ctx_res ctx"
    and "ctx_tokenGenerator (snd (invalidateTokensMutation ctx)) = ctx_tokenGenerator ctx"
proof -
  obtain m users' where u: "updateOne (ctx_users ctx) (u_id user) (Set_count (count user + 1)) = (m, users')"
    by (cases "updateOne (ctx_users ctx) (u_id user) (Set_count (count user + 1))")
  from updateOne_find [OF assms(2) u]
  have f: "findUserById users' (u_id user) = Some (stored\<lparr>count := count user + 1\<rparr>)"
    and m: "m = (if count stored = count user + 1 then 0 else 1)" by simp_all
  from assms(1) u have r: "invalidateTokensMutation ctx = (m = 1, ctx\<lparr>ctx_users := users'\<rparr>)"
    by (simp add: invalidateTokensMutation_def updateUser_def)
  from r m show "fst (invalidateTokensMutation ctx) = (count stored \<noteq> count user + 1)" by simp
  from r f show "findUserById (ctx_users (snd (invalidateTokensMutation ctx))) (u_id user)
           = Some (stored\<lparr>count := count user + 1\<rparr>)" by simp
  from r assms(1) show "ctx_user (snd (invalidateTokensMutation ctx)) = Some user" by simp
  from r show "ctx_res (snd (invalidateTokensMutation ctx)) = ctx_res ctx" by simp
  from r show "ctx_tokenGenerator (snd (invalidateTokensMutation ctx)) = ctx_tokenGenerator ctx" by simp
qed

lemma refreshTokensMutation_eq:
  assumes "ctx_tokenGenerator ctx = tokenGeneratorWithSecrets accessSecret refreshSecret"
  shows "refreshTokensMutation now tok ctx =
    ((case verifyRefreshToken now tok refreshSecret of
        Some (uid, Some n) \<Rightarrow>
          (case findUserById (ctx_users ctx) uid of
             Some u \<Rightarrow>
               if count u = n
               then (case accessTokenGenerator now uid accessSecret of
                       Inl err \<Rightarrow> Inl err
                     | Inr a \<Rightarrow>
                        (case refreshTokenGenerator now uid n refreshSecret of
                           Inl err \<Rightarrow> Inl err
                         | Inr r \<Rightarrow>
                            Inr (Some \<lparr>payload_refreshToken = r, payload_accessToken = a,
                                       payload_count = n\<rparr>)))
               else Inr None
           | None \<Rightarrow> Inr None)
      | _ \<Rightarrow> Inr None), ctx)"
  using assms
  by (simp add: refreshTokensMutation_def signInHelper_def signInVerifiedUser_def
      tokenGeneratorWithSecrets_def split: option.splits prod.splits sum.splits)

lemma findUserByEmail_append_new:
  "findUserByEmail users e = None \<Longrightarrow> email doc = e \<Longrightarrow> findUserByEmail (users @ [doc]) e = Some doc"
  by (induction users) (auto simp: findUserByEmail_def split: if_splits)

text \<open>
  With an empty secret the generators throw inside step 4, the \<^verbatim>\<open>catch\<close> swallows
  the error, and the cookie path ends in \<^verbatim>\<open>return null\<close> without a cookie.
\<close>

lemma getActiveUser_empty_secret:
  assumes "\<not> truthy (authorization req)"
    and "\<forall>t. map_of (cookies req) ''access-token'' = Some t
           \<longrightarrow> verifyAccessToken now t accessSecret = None"
    and "accessSecret = [] \<or> refreshSecret = []"
  shows "getActiveUser now req res accessSecret refreshSecret users = (None, res)"
proof -
  from assms(2) obtain e where
    "jwt_verify_opt now (map_of (cookies req) ''access-token'') accessSecret = Inl e"
    using jwt_verify_opt_access_fails by blast
  note step4 = getActiveUser_cookies [OF assms(1) this, of res refreshSecret users]
  from assms(3) show ?thesis
  proof
    assume a: "accessSecret = []"
    show ?thesis unfolding step4 using a
      by (simp add: accessTokenGenerator_empty split: sum.splits option.splits)
  next
    assume r: "refreshSecret = []"
    show ?thesis unfolding step4 using r
      by (simp add: refreshTokenGenerator_empty split: sum.splits option.splits)
  qed
qed

text \<open>
  With an empty access secret \<open>refreshTokens\<close> throws on a token it accepts: the
  generator's error leaves the resolver.
\<close>

lemma refreshTokens_empty_secret:
  assumes "ctx_tokenGenerator ctx = tokenGeneratorWithSecrets [] refreshSecret"
    and "verifyRefreshToken now tok refreshSecret = Some (uid, Some (count u))"
    and "findUserById (ctx_users ctx) uid = Some u"
  shows "refreshTokensMutation now tok ctx =
           (Inl (Error ''secretOrPrivateKey must have a value''), ctx)"
  using assms(2,3)
  by (simp add: refreshTokensMutation_eq [OF assms(1)] accessTokenGenerator_empty)

lemma signInHelper_secrets:
  assumes "accessSecret \<noteq> []" and "refreshSecret \<noteq> []"
  shows "\<exists>a r. accessTokenGenerator now uid accessSecret = Inr a
          \<and> refreshTokenGenerator now uid n refreshSecret = Inr r
          \<and> signInHelper now uid n (tokenGeneratorWithSecrets accessSecret refreshSecret) res useCookies =
              Inr (\<lparr>payload_refreshToken = r, payload_accessToken = a, payload_count = n\<rparr>,
                   (case res of
                      Some x \<Rightarrow>
                        if useCookies
                        then Some (addTokensToCookies \<lparr>accessToken = a, refreshToken = r\<rparr> x)
                        else Some x
                    | None \<Rightarrow> None))"
proof -
  from assms(1) obtain a where a: "accessTokenGenerator now uid accessSecret = Inr a"
    using accessTokenGenerator_Inr_iff by blast
  from assms(2) obtain r where r: "refreshTokenGenerator now uid n refreshSecret = Inr r"
    using refreshTokenGenerator_Inr_iff by blast
  from a r show ?thesis
    by (simp add: signInHelper_def signInVerifiedUser_def tokenGeneratorWithSecrets_def)
qed

text \<open>
  With an empty access secret \<open>signUp\<close> throws after it has inserted the new user.
\<close>

lemma signUp_empty_secret:
  assumes "ctx_tokenGenerator ctx = tokenGeneratorWithSecrets [] refreshSecret"
    and "\<not> isUser (ctx_users ctx) e"
  shows "signUpMutation now newId salt e password cookies_arg ctx =
           (Inl (Error ''secretOrPrivateKey must have a value''),
            ctx\<lparr>ctx_users := ctx_users ctx @
              [\<lparr>u_id = newId, email = e, passwordHash = bcrypt_hash password salt, count = 0\<rparr>]\<rparr>)"
  using assms
  by (simp add: signUpMutation_def createNewUser_def signInHelper_def signInVerifiedUser_def
      tokenGeneratorWithSecrets_def accessTokenGenerator_empty Let_def)

section \<open>Claims\<close>

text \<open>
  C7. The cookies written by \<open>addTokensToCookies\<close>: the refresh-token cookie has
  max-age \<open>60 * 60 * 24 * 7 = 604800\<close> seconds; the access-token cookie has max-age
  \<open>60 * 60 * 15 = 54000\<close> seconds (15 hours), not the 900 seconds of the access token.
\<close>

theorem addTokensToCookies_max_age:
  "set_cookie (addTokensToCookies toks res) =
     Some [''refresh-token='' @ refreshToken toks @ ''; Max-Age=604800'',
           ''access-token='' @ accessToken toks @ ''; Max-Age=54000'']"
  by (simp add: addTokensToCookies_def serialize_def dec_604800 dec_54000)

text \<open>
  C8. Token verification never raises: every error of the library's \<open>verify\<close> becomes
  the one result \<open>None\<close> of \<open>verifyAccessToken\<close> and \<open>verifyRefreshToken\<close>,
  and its success becomes the embedded claims. \<open>verify\<close> succeeds exactly on the tokens
  signed with the secret whose expiry is after the clock; in particular a token that does
  not decode, a token signed with another secret and a token whose expiry has passed all
  give \<open>None\<close>.
\<close>

theorem verify_total_uniform:
  "(\<forall>e. jwt_verify now tok secret = Inl e \<longrightarrow>
        verifyAccessToken now tok secret = None \<and> verifyRefreshToken now tok secret = None)
   \<and> (\<forall>d. jwt_verify now tok secret = Inr d \<longrightarrow>
        verifyAccessToken now tok secret = Some (userId d) \<and>
        verifyRefreshToken now tok secret = Some (userId d, tokenCount d))
   \<and> ((\<exists>d. jwt_verify now tok secret = Inr d) =
        (\<exists>c. tok = jwt_encode c secret \<and> now < exp c))
   \<and> (jwt_decode tok = None \<longrightarrow>
        verifyAccessToken now tok secret = None \<and> verifyRefreshToken now tok secret = None)
   \<and> (\<forall>c other. tok = jwt_encode c other \<and> other \<noteq> secret \<longrightarrow>
        verifyAccessToken now tok secret = None \<and> verifyRefreshToken now tok secret = None)
   \<and> (\<forall>c. tok = jwt_encode c secret \<and> exp c \<le> now \<longrightarrow>
        verifyAccessToken now tok secret = None \<and> verifyRefreshToken now tok secret = None)"
proof (intro conjI allI impI)
  fix e assume "jwt_verify now tok secret = Inl e"
  from verify_err [OF this]
  show "verifyAccessToken now tok secret = None" "verifyRefreshToken now tok secret = None"
    by simp_all
next
  fix d assume "jwt_verify now tok secret = Inr d"
  from verify_ok [OF this]
  show "verifyAccessToken now tok secret = Some (userId d)"
    "verifyRefreshToken now tok secret = Some (userId d, tokenCount d)"
    by simp_all
next
  show "(\<exists>d. jwt_verify now tok secret = Inr d) =
      (\<exists>c. tok = jwt_encode c secret \<and> now < exp c)" by (rule jwt_verify_valid_iff)
next
  assume "jwt_decode tok = None"
  from verify_err [OF jwt_verify_corrupt [OF this]]
  show "verifyAccessToken now tok secret = None" "verifyRefreshToken now tok secret = None"
    by simp_all
next
  fix c other assume a: "tok = jwt_encode c other \<and> other \<noteq> secret"
  then have "jwt_verify now tok secret = Inl InvalidSignature"
    by (simp add: jwt_verify_badsig)
  from verify_err [OF this]
  show "verifyAccessToken now tok secret = None" "verifyRefreshToken now tok secret = None"
    by simp_all
next
  fix c assume a: "tok = jwt_encode c secret \<and> exp c \<le> now"
  then have "jwt_verify now tok secret = Inl TokenExpired"
    by (simp add: jwt_verify_expired)
  from verify_err [OF this]
  show "verifyAccessToken now tok secret = None" "verifyRefreshToken now tok secret = None"
    by simp_all
qed

theorem verify_total_uniform_witness:
  "jwt_decode ''not.a.token'' = None
   \<and> verifyAccessToken 2000 ''not.a.token'' ''s3cret'' = None
   \<and> verifyRefreshToken 2000 ''not.a.token'' ''s3cret'' = None
   \<and> jwt_verify 1500 ''1000.605800.3.4.5d1f.6:s3cret1000.605800.3.4.5d1f'' ''s3cret'' = Inr \<lparr>userId = ''5d1f'', tokenCount = Some 3\<rparr>
   \<and> verifyRefreshToken 1500 ''1000.605800.3.4.5d1f.6:s3cret1000.605800.3.4.5d1f'' ''s3cret'' = Some (''5d1f'', Some 3)
   \<and> ''1000.605800.3.4.5d1f.6:s3cret1000.605800.3.4.5d1f'' = jwt_encode \<lparr>claims_data = \<lparr>userId = ''5d1f'', tokenCount = Some 3\<rparr>, iat = 1000, exp = 605800\<rparr> ''s3cret''
   \<and> verifyRefreshToken 700000 ''1000.605800.3.4.5d1f.6:s3cret1000.605800.3.4.5d1f'' ''s3cret'' = None
   \<and> verifyRefreshToken 1500 ''1000.605800.3.4.5d1f.6:s3cret1000.605800.3.4.5d1f'' ''0ther'' = None"
proof -
  have h1: "jwt_decode ''not.a.token'' = None"
    by (simp add: decode_eval)
  have dc: "jwt_decode ''1000.605800.3.4.5d1f.6:s3cret1000.605800.3.4.5d1f'' = Some \<lparr>claims_data = \<lparr>userId = ''5d1f'', tokenCount = Some 3\<rparr>, iat = 1000, exp = 605800\<rparr>"
    by (simp add: decode_eval)
  have h3: "''1000.605800.3.4.5d1f.6:s3cret1000.605800.3.4.5d1f'' = jwt_encode \<lparr>claims_data = \<lparr>userId = ''5d1f'', tokenCount = Some 3\<rparr>, iat = 1000, exp = 605800\<rparr> ''s3cret''"
    by (simp add: encode_eval)
  have ne: "jwt_encode \<lparr>claims_data = \<lparr>userId = ''5d1f'', tokenCount = Some 3\<rparr>, iat = 1000, exp = 605800\<rparr> ''0ther'' \<noteq> ''1000.605800.3.4.5d1f.6:s3cret1000.605800.3.4.5d1f''"
    by (simp add: encode_eval)
  have h2: "jwt_verify 1500 ''1000.605800.3.4.5d1f.6:s3cret1000.605800.3.4.5d1f'' ''s3cret'' = Inr \<lparr>userId = ''5d1f'', tokenCount = Some 3\<rparr>"
    by (simp add: jwt_verify_def dc h3 [symmetric])
  have h4: "jwt_verify 700000 ''1000.605800.3.4.5d1f.6:s3cret1000.605800.3.4.5d1f'' ''s3cret'' = Inl TokenExpired"
    by (simp add: jwt_verify_def dc h3 [symmetric])
  have h5: "jwt_verify 1500 ''1000.605800.3.4.5d1f.6:s3cret1000.605800.3.4.5d1f'' ''0ther'' = Inl InvalidSignature"
    by (simp add: jwt_verify_def dc ne)
  note malformed = verify_total_uniform [of 2000 "''not.a.token''" "''s3cret''",
      THEN conjunct2, THEN conjunct2, THEN conjunct2, THEN conjunct1, rule_format, OF h1]
  note valid = verify_total_uniform [of 1500 "''1000.605800.3.4.5d1f.6:s3cret1000.605800.3.4.5d1f''" "''s3cret''",
      THEN conjunct2, THEN conjunct1, rule_format, OF h2]
  note expired = verify_total_uniform [of 700000 "''1000.605800.3.4.5d1f.6:s3cret1000.605800.3.4.5d1f''" "''s3cret''",
      THEN conjunct1, rule_format, OF h4]
  note badsig = verify_total_uniform [of 1500 "''1000.605800.3.4.5d1f.6:s3cret1000.605800.3.4.5d1f''" "''0ther''",
      THEN conjunct1, rule_format, OF h5]
  show ?thesis
    apply (intro conjI)
           apply (rule h1)
          apply (rule malformed [THEN conjunct1])
         apply (rule malformed [THEN conjunct2])
        apply (rule h2)
       apply (rule valid [THEN conjunct2, simplified])
      apply (rule h3)
     apply (rule expired [THEN conjunct2])
    apply (rule badsig [THEN conjunct2])
    done
qed

text \<open>
  C4. A request with a (non-empty) authorization header is decided on that header alone.
  The header, with the first \<open>Bearer \<close> removed, is verified as an access token: on
  success the result is the user looked up by the embedded id, on failure it is no user.
  The cookies of the request play no part, and in both cases the outbound response is
  returned as it was.
\<close>

theorem bearer_header_decides:
  assumes "authorization req = Some h" and "h \<noteq> []"
  shows "getActiveUser now req res accessSecret refreshSecret users =
           ((case verifyAccessToken now (replace ''Bearer '' [] h) accessSecret of
               Some uid \<Rightarrow> findUserById users uid
             | None \<Rightarrow> None), res)
         \<and> getActiveUser now (req\<lparr>cookies := cs\<rparr>) res accessSecret refreshSecret users =
             getActiveUser now req res accessSecret refreshSecret users
         \<and> (verifyAccessToken now (replace ''Bearer '' [] h) accessSecret = None \<longrightarrow>
             getActiveUser now req res accessSecret refreshSecret users = (None, res))"
proof -
  from assms have "authorization (req\<lparr>cookies := cs\<rparr>) = Some h" by simp
  from getActiveUser_bearer [OF this assms(2)] getActiveUser_bearer [OF assms]
  show ?thesis by simp
qed

theorem bearer_header_decides_witness:
  "authorization \<lparr>authorization = Some (''Bearer '' @ alice_access),
                    cookies = [(''refresh-token'', alice_refresh)]\<rparr>
      = Some (''Bearer '' @ alice_access)
   \<and> ''Bearer '' @ alice_access \<noteq> []
   \<and> verifyAccessToken 1500 (replace ''Bearer '' [] (''Bearer '' @ alice_access)) ''s3cret'' = Some ''5d1f''
   \<and> getActiveUser 1500 \<lparr>authorization = Some (''Bearer '' @ alice_access),
                           cookies = [(''refresh-token'', alice_refresh)]\<rparr>
        no_cookies ''s3cret'' ''r3fresh'' [alice] = (Some alice, no_cookies)
   \<and> verifyAccessToken 2000 (replace ''Bearer '' [] (''Bearer '' @ alice_access)) ''s3cret'' = None
   \<and> getActiveUser 2000 \<lparr>authorization = Some (''Bearer '' @ alice_access),
                           cookies = [(''refresh-token'', alice_refresh)]\<rparr>
        no_cookies ''s3cret'' ''r3fresh'' [alice] = (None, no_cookies)"
proof -
  let ?req = "\<lparr>authorization = Some (''Bearer '' @ alice_access),
                cookies = [(''refresh-token'', alice_refresh)]\<rparr>"
  have a: "authorization ?req = Some (''Bearer '' @ alice_access)" by simp
  have b: "''Bearer '' @ alice_access \<noteq> []" by simp
  have r: "replace ''Bearer '' [] (''Bearer '' @ alice_access) = alice_access"
    by (rule replace_prefix)
  have f: "findUserById [alice] ''5d1f'' = Some alice" by (simp add: findUserById_def)
  note t1 = bearer_header_decides [OF a b,
      where now = 1500 and res = no_cookies and accessSecret = "''s3cret''"
        and refreshSecret = "''r3fresh''" and users = "[alice]", THEN conjunct1]
  note t2 = bearer_header_decides [OF a b,
      where now = 2000 and res = no_cookies and accessSecret = "''s3cret''"
        and refreshSecret = "''r3fresh''" and users = "[alice]", THEN conjunct1]
  have v1: "verifyAccessToken 1500 (replace ''Bearer '' [] (''Bearer '' @ alice_access)) ''s3cret'' = Some ''5d1f''"
    by (simp only: r alice_access_verify) simp
  have v2: "verifyAccessToken 2000 (replace ''Bearer '' [] (''Bearer '' @ alice_access)) ''s3cret'' = None"
    by (simp only: r alice_access_verify) simp
  have g1: "getActiveUser 1500 ?req no_cookies ''s3cret'' ''r3fresh'' [alice] = (Some alice, no_cookies)"
    by (simp only: t1 v1 f option.case)
  have g2: "getActiveUser 2000 ?req no_cookies ''s3cret'' ''r3fresh'' [alice] = (None, no_cookies)"
    by (simp only: t2 v2 option.case)
  show ?thesis
    by (intro conjI a b v1 g1 v2 g2)
qed

text \<open>
  C10. A non-empty authorization header is verified after \<open>replace\<close> has removed the
  first occurrence of \<open>Bearer \<close> from it, wherever that occurrence is. A header in
  which \<open>Bearer \<close> does not occur is therefore verified as it is, so an access token
  sent without the scheme prefix authenticates; a header in which \<open>Bearer \<close> occurs
  later than at the start is verified with that occurrence cut out, not as it is.
\<close>

theorem bearer_header_first_occurrence:
  assumes "authorization req = Some h" and "h \<noteq> []"
  shows "((\<forall>i. take 7 (drop i h) \<noteq> ''Bearer '') \<longrightarrow>
           getActiveUser now req res accessSecret refreshSecret users =
             ((case verifyAccessToken now h accessSecret of
                 Some uid \<Rightarrow> findUserById users uid
               | None \<Rightarrow> None), res))
       \<and> (\<forall>p s. h = p @ ''Bearer '' @ s \<and> (\<forall>i<length p. take 7 (drop i h) \<noteq> ''Bearer '') \<longrightarrow>
           getActiveUser now req res accessSecret refreshSecret users =
             ((case verifyAccessToken now (p @ s) accessSecret of
                 Some uid \<Rightarrow> findUserById users uid
               | None \<Rightarrow> None), res))"
proof -
  have len: "length ''Bearer '' = 7" by simp
  show ?thesis
  proof (intro conjI allI impI)
    assume "\<forall>i. take 7 (drop i h) \<noteq> ''Bearer ''"
    then have "\<forall>i. take (length ''Bearer '') (drop i h) \<noteq> ''Bearer ''"
      unfolding len .
    then have "replace ''Bearer '' [] h = h"
      by (intro replace_no_occurrence) simp_all
    with getActiveUser_bearer [OF assms]
    show "getActiveUser now req res accessSecret refreshSecret users =
               ((case verifyAccessToken now h accessSecret of
                   Some uid \<Rightarrow> findUserById users uid
                 | None \<Rightarrow> None), res)" by simp
  next
    fix p s
    assume "h = p @ ''Bearer '' @ s \<and> (\<forall>i<length p. take 7 (drop i h) \<noteq> ''Bearer '')"
    then have h: "h = p @ ''Bearer '' @ s"
      and occ: "\<forall>i<length p. take 7 (drop i (p @ ''Bearer '' @ s)) \<noteq> ''Bearer ''"
      by blast+
    from occ have "\<forall>i<length p. take (length ''Bearer '') (drop i (p @ ''Bearer '' @ s)) \<noteq> ''Bearer ''"
      unfolding len .
    then have "replace ''Bearer '' [] (p @ ''Bearer '' @ s) = p @ [] @ s"
      by (intro replace_first_occurrence) simp_all
    with h have "replace ''Bearer '' [] h = p @ s" by simp
    with getActiveUser_bearer [OF assms]
    show "getActiveUser now req res accessSecret refreshSecret users =
               ((case verifyAccessToken now (p @ s) accessSecret of
                   Some uid \<Rightarrow> findUserById users uid
                 | None \<Rightarrow> None), res)" by simp
  qed
qed

theorem bearer_header_first_occurrence_witness:
  "authorization \<lparr>authorization = Some alice_access, cookies = []\<rparr> = Some alice_access
   \<and> alice_access \<noteq> []
   \<and> (\<forall>i. take 7 (drop i alice_access) \<noteq> ''Bearer '')
   \<and> getActiveUser 1500 \<lparr>authorization = Some alice_access, cookies = []\<rparr>
        no_cookies ''s3cret'' ''r3fresh'' [alice] = (Some alice, no_cookies)
   \<and> split_header = ''1000.1900.-.4.5d'' @ ''Bearer '' @ ''1f.6:s3cret1000.1900.-.4.5d1f''
   \<and> CHR ''B'' \<notin> set ''1000.1900.-.4.5d''
   \<and> getActiveUser 1500 \<lparr>authorization = Some split_header, cookies = []\<rparr>
        no_cookies ''s3cret'' ''r3fresh'' [alice] = (Some alice, no_cookies)"
proof -
  have a1: "authorization \<lparr>authorization = Some alice_access, cookies = []\<rparr> = Some alice_access"
    by simp
  have b1: "alice_access \<noteq> []" by simp
  have c1: "\<forall>i. take 7 (drop i alice_access) \<noteq> ''Bearer ''"
    by (intro allI no_occurrence_missing_char) simp
  have a2: "authorization \<lparr>authorization = Some split_header, cookies = []\<rparr> = Some split_header"
    by simp
  have b2: "split_header \<noteq> []" by simp
  have c2: "split_header = ''1000.1900.-.4.5d'' @ ''Bearer '' @ ''1f.6:s3cret1000.1900.-.4.5d1f''"
    by simp
  have d2: "\<forall>i<length ''1000.1900.-.4.5d''. take 7 (drop i split_header) \<noteq> ''Bearer ''"
  proof (intro allI impI)
    fix i assume "i < length ''1000.1900.-.4.5d''"
    then have "take (Suc 6) (drop i (''1000.1900.-.4.5d'' @ ''Bearer 1f.6:s3cret1000.1900.-.4.5d1f''))
        \<noteq> CHR ''B'' # ''earer ''"
      by (rule no_occurrence_before) simp
    then show "take 7 (drop i split_header) \<noteq> ''Bearer ''" by simp
  qed
  have f: "findUserById [alice] ''5d1f'' = Some alice" by (simp add: findUserById_def)
  have v: "verifyAccessToken 1500 alice_access ''s3cret'' = Some ''5d1f''"
    by (simp add: alice_access_verify)
  note t1 = bearer_header_first_occurrence [OF a1 b1,
      where now = 1500 and res = no_cookies and accessSecret = "''s3cret''"
        and refreshSecret = "''r3fresh''" and users = "[alice]", THEN conjunct1, THEN mp, OF c1]
  note t2 = bearer_header_first_occurrence [OF a2 b2,
      where now = 1500 and res = no_cookies and accessSecret = "''s3cret''"
        and refreshSecret = "''r3fresh''" and users = "[alice]", THEN conjunct2, THEN spec, THEN spec, THEN mp,
      OF conjI [OF c2 d2]]
  have g1: "getActiveUser 1500 \<lparr>authorization = Some alice_access, cookies = []\<rparr>
        no_cookies ''s3cret'' ''r3fresh'' [alice] = (Some alice, no_cookies)"
    by (simp only: t1 v f option.case)
  have "''1000.1900.-.4.5d'' @ ''1f.6:s3cret1000.1900.-.4.5d1f'' = alice_access" by simp
  then have g2: "getActiveUser 1500 \<lparr>authorization = Some split_header, cookies = []\<rparr>
        no_cookies ''s3cret'' ''r3fresh'' [alice] = (Some alice, no_cookies)"
    by (simp only: t2 v f option.case)
  have e2: "CHR ''B'' \<notin> set ''1000.1900.-.4.5d''" by simp
  show ?thesis
    by (intro conjI a1 b1 c1 g1 c2 e2 g2)
qed

text \<open>
  The header \<open>split_header\<close> does not begin with \<open>Bearer \<close> and is not itself a
  valid token, yet the request is authenticated: the token verified is the header with the
  inner \<open>Bearer \<close> removed.
\<close>

theorem raw_header_counterexample:
  "take 7 split_header \<noteq> ''Bearer ''
   \<and> verifyAccessToken 1500 split_header ''s3cret'' = None
   \<and> getActiveUser 1500 \<lparr>authorization = Some split_header, cookies = []\<rparr>
        no_cookies ''s3cret'' ''r3fresh'' [alice] = (Some alice, no_cookies)
   \<and> getActiveUser 1500 \<lparr>authorization = Some split_header, cookies = []\<rparr>
        no_cookies ''s3cret'' ''r3fresh'' [alice] \<noteq>
       ((case verifyAccessToken 1500 split_header ''s3cret'' of
           Some uid \<Rightarrow> findUserById [alice] uid
         | None \<Rightarrow> None), no_cookies)"
proof -
  have raw: "verifyAccessToken 1500 split_header ''s3cret'' = None"
    by (simp add: verifyAccessToken_def jwt_verify_def decode_eval)
  have stripped: "replace ''Bearer '' [] split_header = alice_access"
    by simp
  have "getActiveUser 1500 \<lparr>authorization = Some split_header, cookies = []\<rparr>
        no_cookies ''s3cret'' ''r3fresh'' [alice] =
       ((case verifyAccessToken 1500 (replace ''Bearer '' [] split_header) ''s3cret'' of
           Some uid \<Rightarrow> findUserById [alice] uid
         | None \<Rightarrow> None), no_cookies)"
    by (rule getActiveUser_bearer) simp_all
  then have got: "getActiveUser 1500 \<lparr>authorization = Some split_header, cookies = []\<rparr>
        no_cookies ''s3cret'' ''r3fresh'' [alice] = (Some alice, no_cookies)"
    by (simp only: stripped alice_access_verify) (simp add: findUserById_def)
  have first: "take 7 split_header \<noteq> ''Bearer ''" by simp
  from first raw got show ?thesis by (simp only: option.case) simp
qed

text \<open>
  C3. \<open>invalidateTokens\<close> writes into the store, with \<^verbatim>\<open>$set\<close>, the count of the
  user resolved for the request plus one: the new value is computed by the caller from its
  own copy of the user, not by the store from the stored value. When the stored count
  equals that of the resolved user, the stored count grows by exactly one and the result is
  true; the result is false when the user is not in the store or already has the value
  written.
\<close>

theorem invalidateTokens_sets_count:
  assumes "ctx_user ctx = Some user"
  shows "(\<forall>stored. findUserById (ctx_users ctx) (u_id user) = Some stored \<longrightarrow>
            findUserById (ctx_users (snd (invalidateTokensMutation ctx))) (u_id user)
              = Some (stored\<lparr>count := count user + 1\<rparr>)
            \<and> fst (invalidateTokensMutation ctx) = (count stored \<noteq> count user + 1)
            \<and> (count stored = count user \<longrightarrow>
                 findUserById (ctx_users (snd (invalidateTokensMutation ctx))) (u_id user)
                   = Some (stored\<lparr>count := count stored + 1\<rparr>)
                 \<and> fst (invalidateTokensMutation ctx)))
         \<and> (findUserById (ctx_users ctx) (u_id user) = None \<longrightarrow>
               invalidateTokensMutation ctx = (False, ctx))"
proof (intro conjI allI impI)
  fix stored
  assume f: "findUserById (ctx_users ctx) (u_id user) = Some stored"
  note e = invalidateTokens_effect [OF assms f]
  from e(2) show "findUserById (ctx_users (snd (invalidateTokensMutation ctx))) (u_id user)
              = Some (stored\<lparr>count := count user + 1\<rparr>)" .
  from e(1) show "fst (invalidateTokensMutation ctx) = (count stored \<noteq> count user + 1)" .
  {
    assume c: "count stored = count user"
    from e(2) c show "findUserById (ctx_users (snd (invalidateTokensMutation ctx))) (u_id user)
                   = Some (stored\<lparr>count := count stored + 1\<rparr>)" by simp
    from e(1) c show "fst (invalidateTokensMutation ctx)" by simp
  }
next
  assume "findUserById (ctx_users ctx) (u_id user) = None"
  from updateOne_missing [OF this] assms
  show "invalidateTokensMutation ctx = (False, ctx)"
    by (simp add: invalidateTokensMutation_def updateUser_def)
qed

theorem invalidateTokens_sets_count_witness:
  "ctx_user alice_ctx = Some alice
   \<and> findUserById (ctx_users alice_ctx) (u_id alice) = Some alice
   \<and> findUserById (ctx_users (snd (invalidateTokensMutation alice_ctx))) (u_id alice)
        = Some (alice\<lparr>count := 4\<rparr>)
   \<and> fst (invalidateTokensMutation alice_ctx)
   \<and> findUserById (ctx_users (alice_ctx\<lparr>ctx_users := []\<rparr>)) (u_id alice) = None
   \<and> invalidateTokensMutation (alice_ctx\<lparr>ctx_users := []\<rparr>)
        = (False, alice_ctx\<lparr>ctx_users := []\<rparr>)"
proof -
  have a: "ctx_user alice_ctx = Some alice" by simp
  have f: "findUserById (ctx_users alice_ctx) (u_id alice) = Some alice"
    by (simp add: findUserById_def)
  have a': "ctx_user (alice_ctx\<lparr>ctx_users := []\<rparr>) = Some alice" by simp
  have n: "findUserById (ctx_users (alice_ctx\<lparr>ctx_users := []\<rparr>)) (u_id alice) = None"
    by (simp add: findUserById_def)
  note t = invalidateTokens_sets_count [OF a, THEN conjunct1, THEN spec, THEN mp, OF f]
  note t' = invalidateTokens_sets_count [OF a', THEN conjunct2, THEN mp, OF n]
  from a f n t t' show ?thesis by simp
qed

text \<open>
  Two revocations for the same user, both resolved (here from the same bearer token) while
  the stored count was 3: the first writes 4 and succeeds; the second, running after it
  with its own copy of the user still at 3, writes 4 again and reports false. The stored
  count has grown by one, not by two.
\<close>

theorem concurrent_revocations_collapse:
  "fst (getActiveUser 1500 \<lparr>authorization = Some (''Bearer '' @ alice_access), cookies = []\<rparr>
          no_cookies ''s3cret'' ''r3fresh'' [alice]) = Some alice
   \<and> invalidateTokensMutation alice_ctx = (True, alice_ctx\<lparr>ctx_users := [alice\<lparr>count := 4\<rparr>]\<rparr>)
   \<and> invalidateTokensMutation (alice_ctx\<lparr>ctx_users := [alice\<lparr>count := 4\<rparr>]\<rparr>)
        = (False, alice_ctx\<lparr>ctx_users := [alice\<lparr>count := 4\<rparr>]\<rparr>)
   \<and> map count (ctx_users (snd (invalidateTokensMutation
          (snd (invalidateTokensMutation alice_ctx))))) = [count alice + 1]
   \<and> map count (ctx_users (snd (invalidateTokensMutation
          (snd (invalidateTokensMutation alice_ctx))))) \<noteq> [count alice + 2]"
proof -
  have "getActiveUser 1500 \<lparr>authorization = Some (''Bearer '' @ alice_access), cookies = []\<rparr>
          no_cookies ''s3cret'' ''r3fresh'' [alice] =
       ((case verifyAccessToken 1500 (replace ''Bearer '' [] (''Bearer '' @ alice_access)) ''s3cret'' of
           Some uid \<Rightarrow> findUserById [alice] uid
         | None \<Rightarrow> None), no_cookies)"
    by (rule getActiveUser_bearer) simp_all
  then have g: "fst (getActiveUser 1500 \<lparr>authorization = Some (''Bearer '' @ alice_access), cookies = []\<rparr>
          no_cookies ''s3cret'' ''r3fresh'' [alice]) = Some alice"
    by (simp only: replace_prefix alice_access_verify) (simp add: findUserById_def)
  have i1: "invalidateTokensMutation alice_ctx = (True, alice_ctx\<lparr>ctx_users := [alice\<lparr>count := 4\<rparr>]\<rparr>)"
    by (simp add: invalidateTokensMutation_def updateUser_def)
  have i2: "invalidateTokensMutation (alice_ctx\<lparr>ctx_users := [alice\<lparr>count := 4\<rparr>]\<rparr>)
        = (False, alice_ctx\<lparr>ctx_users := [alice\<lparr>count := 4\<rparr>]\<rparr>)"
    by (simp add: invalidateTokensMutation_def updateUser_def)
  from g i1 i2 show ?thesis by simp
qed

text \<open>
  C2. Credential validation fails in both cases, but not with the same error: an unknown
  email raises \<^verbatim>\<open>Invalid email provided\<close>, a known email with a wrong password
  raises \<^verbatim>\<open>Invalid credential combination\<close>, and \<open>signIn\<close> passes either error
  on to its caller unchanged. With the right password the user is returned.
\<close>

theorem credential_failures_differ:
  "(findUserByEmail users e = None \<longrightarrow>
      getValidatedUser e password users = Inl (Error ''Invalid email provided'')
      \<and> signInMutation now e password cookies_arg (ctx\<lparr>ctx_users := users\<rparr>)
          = Inl (Error ''Invalid email provided''))
   \<and> (\<forall>u. findUserByEmail users e = Some u \<and> \<not> compare password (passwordHash u) \<longrightarrow>
      getValidatedUser e password users = Inl (Error ''Invalid credential combination'')
      \<and> signInMutation now e password cookies_arg (ctx\<lparr>ctx_users := users\<rparr>)
          = Inl (Error ''Invalid credential combination''))
   \<and> (\<forall>u. findUserByEmail users e = Some u \<and> compare password (passwordHash u) \<longrightarrow>
      getValidatedUser e password users = Inr u)"
  by (simp add: getValidatedUser_def signInMutation_def)

theorem credential_failures_differ_witness:
  "findUserByEmail [alice] ''nobody@x.com'' = None
   \<and> getValidatedUser ''nobody@x.com'' ''pw'' [alice] = Inl (Error ''Invalid email provided'')
   \<and> findUserByEmail [alice] ''a@x.com'' = Some alice
   \<and> \<not> compare ''wrong'' (passwordHash alice)
   \<and> getValidatedUser ''a@x.com'' ''wrong'' [alice] = Inl (Error ''Invalid credential combination'')
   \<and> compare ''pw'' (passwordHash alice)
   \<and> getValidatedUser ''a@x.com'' ''pw'' [alice] = Inr alice"
proof -
  have a: "findUserByEmail [alice] ''nobody@x.com'' = None"
    by (simp add: findUserByEmail_def)
  have b: "findUserByEmail [alice] ''a@x.com'' = Some alice"
    by (simp add: findUserByEmail_def)
  have c: "\<not> compare ''wrong'' (passwordHash alice)"
    by (simp add: compare_def bcrypt_hash_def)
  have d: "compare ''pw'' (passwordHash alice)"
    by (simp add: compare_def bcrypt_hash_def)
  note unknown = credential_failures_differ [of "[alice]" "''nobody@x.com''" "''pw''" 0 None alice_ctx,
      THEN conjunct1, THEN mp, OF a, THEN conjunct1]
  note wrong = credential_failures_differ [of "[alice]" "''a@x.com''" "''wrong''" 0 None alice_ctx,
      THEN conjunct2, THEN conjunct1, THEN spec, THEN mp, OF conjI [OF b c], THEN conjunct1]
  note right = credential_failures_differ [of "[alice]" "''a@x.com''" "''pw''" 0 None alice_ctx,
      THEN conjunct2, THEN conjunct2, THEN spec, THEN mp, OF conjI [OF b d]]
  show ?thesis
    by (intro conjI a unknown b c wrong d right)
qed

text \<open>
  The same wrong password, once with an unknown email and once with a known one: the two
  outcomes differ, for \<open>getValidatedUser\<close> and for \<open>signIn\<close>.
\<close>

theorem credential_failures_counterexample:
  "findUserByEmail [alice] ''nobody@x.com'' = None
   \<and> findUserByEmail [alice] ''a@x.com'' = Some alice
   \<and> \<not> compare ''wrong'' (passwordHash alice)
   \<and> getValidatedUser ''nobody@x.com'' ''wrong'' [alice]
        \<noteq> getValidatedUser ''a@x.com'' ''wrong'' [alice]
   \<and> signInMutation 1500 ''nobody@x.com'' ''wrong'' None (alice_ctx\<lparr>ctx_user := None\<rparr>)
        \<noteq> signInMutation 1500 ''a@x.com'' ''wrong'' None (alice_ctx\<lparr>ctx_user := None\<rparr>)"
  by (simp add: getValidatedUser_def signInMutation_def findUserByEmail_def compare_def
      bcrypt_hash_def)

text \<open>
  C6. Issue-then-verify round trip. With a non-empty secret, \<open>accessTokenGenerator\<close>
  produces a token for every user id; the token made at time \<open>now\<close> expires at
  \<open>now + 900\<close> (15 minutes), and verified with the same secret at any time \<open>t\<close>
  before that it yields exactly that user id. (With the empty secret the generator throws
  and there is no token to verify.)
\<close>

theorem access_token_round_trip:
  assumes "secret \<noteq> []" and "t < now + 900"
  shows "\<exists>tok. accessTokenGenerator now uid secret = Inr tok
           \<and> verifyAccessToken t tok secret = Some uid"
proof -
  from assms(1) obtain tok where tok: "accessTokenGenerator now uid secret = Inr tok"
    using accessTokenGenerator_Inr_iff by blast
  from verifyAccessToken_issued [OF tok, of t] assms(2)
  have "verifyAccessToken t tok secret = Some uid" by simp
  with tok show ?thesis by blast
qed

theorem access_token_round_trip_witness:
  "''s3cret'' \<noteq> [] \<and> (1899::nat) < 1000 + 900
   \<and> accessTokenGenerator 1000 ''5d1f'' ''s3cret'' = Inr alice_access
   \<and> verifyAccessToken 1899 alice_access ''s3cret'' = Some ''5d1f''"
proof -
  have s: "''s3cret'' \<noteq> []" by simp
  have t: "(1899::nat) < 1000 + 900" by simp
  have g: "accessTokenGenerator 1000 ''5d1f'' ''s3cret'' = Inr alice_access"
    by (simp add: accessTokenGenerator_def tokenGenerator_def jwt_sign_def encode_eval)
  from access_token_round_trip [OF s t, of "''5d1f''"] g
  have v: "verifyAccessToken 1899 alice_access ''s3cret'' = Some ''5d1f''" by simp
  show ?thesis by (intro conjI s t g v)
qed

text \<open>
  C1. Step 4 of \<open>getActiveUser\<close>, with both secrets non-empty. The request has no
  authorization header (or an empty one) and its access cookie is absent or does not
  verify. If the refresh cookie verifies as a refresh token, the user found by the embedded
  id exists and that user's count equals the embedded count, then \<open>getActiveUser\<close>
  returns that user and sets the \<^verbatim>\<open>Set-Cookie\<close> header of the response to the two
  cookies \<^verbatim>\<open>refresh-token\<close> and \<^verbatim>\<open>access-token\<close>, carrying a new refresh token and
  a new access token: the tokens the generators issue now for that user, which verify to
  the user's id and, for the refresh token, to the same count. In every other case it
  returns no user and leaves the response as it was.
\<close>

theorem refresh_cookie_rotation:
  assumes nobearer: "\<not> truthy (authorization req)"
    and noaccess: "\<forall>t. map_of (cookies req) ''access-token'' = Some t
                     \<longrightarrow> verifyAccessToken now t accessSecret = None"
    and secrets: "accessSecret \<noteq> []" "refreshSecret \<noteq> []"
  shows "(\<forall>rt uid u.
            map_of (cookies req) ''refresh-token'' = Some rt
            \<and> verifyRefreshToken now rt refreshSecret = Some (uid, Some (count u))
            \<and> findUserById users uid = Some u
          \<longrightarrow>
            (\<exists>newAccess newRefresh.
               getActiveUser now req res accessSecret refreshSecret users =
                 (Some u,
                  res\<lparr>set_cookie := Some
                    [''refresh-token='' @ newRefresh @ ''; Max-Age=604800'',
                     ''access-token='' @ newAccess @ ''; Max-Age=54000'']\<rparr>)
               \<and> accessTokenGenerator now uid accessSecret = Inr newAccess
               \<and> refreshTokenGenerator now uid (count u) refreshSecret = Inr newRefresh
               \<and> verifyAccessToken now newAccess accessSecret = Some (u_id u)
               \<and> verifyRefreshToken now newRefresh refreshSecret = Some (u_id u, Some (count u))))
       \<and> ((\<nexists>rt uid u.
              map_of (cookies req) ''refresh-token'' = Some rt
              \<and> verifyRefreshToken now rt refreshSecret = Some (uid, Some (count u))
              \<and> findUserById users uid = Some u)
            \<longrightarrow> getActiveUser now req res accessSecret refreshSecret users = (None, res))"
proof -
  from noaccess obtain e where
    "jwt_verify_opt now (map_of (cookies req) ''access-token'') accessSecret = Inl e"
    using jwt_verify_opt_access_fails by blast
  note step4 = getActiveUser_cookies [OF nobearer this, of res refreshSecret users]
  show ?thesis
  proof (intro conjI allI impI)
    fix rt uid u
    assume ok: "map_of (cookies req) ''refresh-token'' = Some rt
            \<and> verifyRefreshToken now rt refreshSecret = Some (uid, Some (count u))
            \<and> findUserById users uid = Some u"
    then have id: "u_id u = uid" by (auto dest: find_Some_id)
    from secrets(1) obtain a where a: "accessTokenGenerator now uid accessSecret = Inr a"
      using accessTokenGenerator_Inr_iff by blast
    from secrets(2) obtain r where r: "refreshTokenGenerator now uid (count u) refreshSecret = Inr r"
      using refreshTokenGenerator_Inr_iff by blast
    from ok have "\<exists>d. jwt_verify now rt refreshSecret = Inr d \<and> userId d = uid
        \<and> tokenCount d = Some (count u)"
      by (auto simp: verifyRefreshToken_def split: sum.splits)
    with ok id a r have "getActiveUser now req res accessSecret refreshSecret users =
        (Some u, addTokensToCookies \<lparr>accessToken = a, refreshToken = r\<rparr> res)"
      by (auto simp: step4 jwt_verify_opt_def)
    then have g: "getActiveUser now req res accessSecret refreshSecret users =
                 (Some u,
                  res\<lparr>set_cookie := Some
                    [''refresh-token='' @ r @ ''; Max-Age=604800'',
                     ''access-token='' @ a @ ''; Max-Age=54000'']\<rparr>)"
      by (simp add: addTokensToCookies_header)
    from verifyAccessToken_issued [OF a, of now] id
    have va: "verifyAccessToken now a accessSecret = Some (u_id u)" by simp
    from verifyRefreshToken_issued [OF r, of now] id
    have vr: "verifyRefreshToken now r refreshSecret = Some (u_id u, Some (count u))" by simp
    from g a r va vr
    show "\<exists>newAccess newRefresh.
               getActiveUser now req res accessSecret refreshSecret users =
                 (Some u,
                  res\<lparr>set_cookie := Some
                    [''refresh-token='' @ newRefresh @ ''; Max-Age=604800'',
                     ''access-token='' @ newAccess @ ''; Max-Age=54000'']\<rparr>)
               \<and> accessTokenGenerator now uid accessSecret = Inr newAccess
               \<and> refreshTokenGenerator now uid (count u) refreshSecret = Inr newRefresh
               \<and> verifyAccessToken now newAccess accessSecret = Some (u_id u)
               \<and> verifyRefreshToken now newRefresh refreshSecret = Some (u_id u, Some (count u))"
      by blast
  next
    assume none: "\<nexists>rt uid u.
              map_of (cookies req) ''refresh-token'' = Some rt
              \<and> verifyRefreshToken now rt refreshSecret = Some (uid, Some (count u))
              \<and> findUserById users uid = Some u"
    show "getActiveUser now req res accessSecret refreshSecret users = (None, res)"
    proof (cases "jwt_verify_opt now (map_of (cookies req) ''refresh-token'') refreshSecret")
      case (Inl e')
      then show ?thesis by (simp add: step4)
    next
      case (Inr d)
      then obtain rt where rt: "map_of (cookies req) ''refresh-token'' = Some rt"
        and v: "jwt_verify now rt refreshSecret = Inr d"
        by (auto simp: jwt_verify_opt_def split: option.splits)
      then have vr: "verifyRefreshToken now rt refreshSecret = Some (userId d, tokenCount d)"
        by (simp add: verifyRefreshToken_def)
      show ?thesis
      proof (cases "findUserById users (userId d)")
        case None
        with Inr show ?thesis by (simp add: step4)
      next
        case (Some u)
        with none rt vr have "tokenCount d \<noteq> Some (count u)" by auto
        with Inr Some show ?thesis by (simp add: step4)
      qed
    qed
  qed
qed

theorem refresh_cookie_rotation_witness:
  "\<not> truthy (authorization \<lparr>authorization = None, cookies = [(''refresh-token'', alice_refresh)]\<rparr>)
   \<and> map_of (cookies \<lparr>authorization = None, cookies = [(''refresh-token'', alice_refresh)]\<rparr>)
        ''access-token'' = None
   \<and> ''s3cret'' \<noteq> [] \<and> ''r3fresh'' \<noteq> []
   \<and> verifyRefreshToken 1500 alice_refresh ''r3fresh'' = Some (''5d1f'', Some (count alice))
   \<and> findUserById [alice] ''5d1f'' = Some alice
   \<and> getActiveUser 1500 \<lparr>authorization = None, cookies = [(''refresh-token'', alice_refresh)]\<rparr>
        no_cookies ''s3cret'' ''r3fresh'' [alice] =
       (Some alice,
        \<lparr>set_cookie = Some
          [''refresh-token=1500.606300.3.4.5d1f.7:r3fresh1500.606300.3.4.5d1f; Max-Age=604800'',
           ''access-token=1500.2400.-.4.5d1f.6:s3cret1500.2400.-.4.5d1f; Max-Age=54000'']\<rparr>)
   \<and> verifyAccessToken 1500 ''1500.2400.-.4.5d1f.6:s3cret1500.2400.-.4.5d1f'' ''s3cret'' = Some ''5d1f''
   \<and> verifyRefreshToken 1500 ''1500.606300.3.4.5d1f.7:r3fresh1500.606300.3.4.5d1f'' ''r3fresh'' = Some (''5d1f'', Some 3)
   \<and> getActiveUser 1500 \<lparr>authorization = None, cookies = [(''refresh-token'', alice_refresh)]\<rparr>
        no_cookies ''s3cret'' ''r3fresh'' [alice\<lparr>count := 4\<rparr>] = (None, no_cookies)"
proof -
  let ?req = "\<lparr>authorization = None, cookies = [(''refresh-token'', alice_refresh)]\<rparr>"
  have nb: "\<not> truthy (authorization ?req)" by (simp add: truthy_def)
  have na: "\<forall>t. map_of (cookies ?req) ''access-token'' = Some t
              \<longrightarrow> verifyAccessToken 1500 t ''s3cret'' = None" by simp
  have na': "map_of (cookies ?req) ''access-token'' = None" by simp
  have sa: "''s3cret'' \<noteq> []" and sr: "''r3fresh'' \<noteq> []" by simp_all
  have f: "findUserById [alice] ''5d1f'' = Some alice" by (simp add: findUserById_def)
  have v: "verifyRefreshToken 1500 alice_refresh ''r3fresh'' = Some (''5d1f'', Some (count alice))"
    by (simp add: alice_refresh_verify)
  have c: "map_of (cookies ?req) ''refresh-token'' = Some alice_refresh" by simp
  have ga: "accessTokenGenerator 1500 ''5d1f'' ''s3cret'' = Inr ''1500.2400.-.4.5d1f.6:s3cret1500.2400.-.4.5d1f''"
    by (simp add: accessTokenGenerator_def tokenGenerator_def jwt_sign_def encode_eval)
  have gr: "refreshTokenGenerator 1500 ''5d1f'' (count alice) ''r3fresh'' = Inr ''1500.606300.3.4.5d1f.7:r3fresh1500.606300.3.4.5d1f''"
    by (simp add: refreshTokenGenerator_def tokenGenerator_def jwt_sign_def encode_eval)
  have none: "\<nexists>rt uid u.
      map_of (cookies ?req) ''refresh-token'' = Some rt
      \<and> verifyRefreshToken 1500 rt ''r3fresh'' = Some (uid, Some (count u))
      \<and> findUserById [alice\<lparr>count := 4\<rparr>] uid = Some u"
    by (auto simp: alice_refresh_verify findUserById_def)
  note yes = refresh_cookie_rotation [OF nb na sa sr,
      where res = no_cookies and users = "[alice]",
      THEN conjunct1, THEN spec, THEN spec, THEN spec, THEN mp, OF conjI [OF c conjI [OF v f]]]
  note no = refresh_cookie_rotation [OF nb na sa sr,
      where res = no_cookies and users = "[alice\<lparr>count := 4\<rparr>]",
      THEN conjunct2, THEN mp, OF none]
  from yes ga gr have
    g: "getActiveUser 1500 ?req no_cookies ''s3cret'' ''r3fresh'' [alice] =
       (Some alice,
        \<lparr>set_cookie = Some
          [''refresh-token=1500.606300.3.4.5d1f.7:r3fresh1500.606300.3.4.5d1f; Max-Age=604800'',
           ''access-token=1500.2400.-.4.5d1f.6:s3cret1500.2400.-.4.5d1f; Max-Age=54000'']\<rparr>)"
    and va: "verifyAccessToken 1500 ''1500.2400.-.4.5d1f.6:s3cret1500.2400.-.4.5d1f'' ''s3cret'' = Some ''5d1f''"
    and vr: "verifyRefreshToken 1500 ''1500.606300.3.4.5d1f.7:r3fresh1500.606300.3.4.5d1f'' ''r3fresh'' = Some (''5d1f'', Some 3)"
    by auto
  show ?thesis
    by (intro conjI nb na' sa sr v f g va vr no)
qed

text \<open>
  C5. \<open>refreshTokens\<close>, in a context whose generator is built from two non-empty
  secrets. It returns a token pair exactly when the given token verifies as a refresh
  token, the user found by its embedded id exists and that user's count equals the embedded
  count. The pair is then the one the generators issue now for that id and count: its
  tokens verify to the user's id and, for the refresh token, to the same count, and the
  payload carries that count. In every other case the result is null. The context, and
  with it the outbound response, is never changed: no cookie is written. In particular, a
  refresh token of a user that was accepted before the user's tokens were invalidated
  (with result true) yields null at any time after.
\<close>

theorem refreshTokens_iff:
  assumes tg: "ctx_tokenGenerator ctx = tokenGeneratorWithSecrets accessSecret refreshSecret"
    and secrets: "accessSecret \<noteq> []" "refreshSecret \<noteq> []"
  shows "((\<exists>p. fst (refreshTokensMutation now tok ctx) = Inr (Some p)) =
            (\<exists>uid u. verifyRefreshToken now tok refreshSecret = Some (uid, Some (count u))
                    \<and> findUserById (ctx_users ctx) uid = Some u))
       \<and> (\<forall>uid u. verifyRefreshToken now tok refreshSecret = Some (uid, Some (count u))
                  \<and> findUserById (ctx_users ctx) uid = Some u \<longrightarrow>
             (\<exists>newAccess newRefresh.
                fst (refreshTokensMutation now tok ctx) =
                  Inr (Some \<lparr>payload_refreshToken = newRefresh,
                             payload_accessToken = newAccess,
                             payload_count = count u\<rparr>)
                \<and> accessTokenGenerator now uid accessSecret = Inr newAccess
                \<and> refreshTokenGenerator now uid (count u) refreshSecret = Inr newRefresh
                \<and> verifyAccessToken now newAccess accessSecret = Some (u_id u)
                \<and> verifyRefreshToken now newRefresh refreshSecret
                    = Some (u_id u, Some (count u))))
       \<and> ((\<nexists>uid u. verifyRefreshToken now tok refreshSecret = Some (uid, Some (count u))
                    \<and> findUserById (ctx_users ctx) uid = Some u) \<longrightarrow>
             fst (refreshTokensMutation now tok ctx) = Inr None)
       \<and> snd (refreshTokensMutation now tok ctx) = ctx
       \<and> (\<forall>p user later.
             fst (refreshTokensMutation now tok ctx) = Inr (Some p)
             \<and> ctx_user ctx = Some user
             \<and> (\<exists>c. verifyRefreshToken now tok refreshSecret = Some (u_id user, c))
             \<and> fst (invalidateTokensMutation ctx) \<longrightarrow>
             fst (refreshTokensMutation later tok (snd (invalidateTokensMutation ctx))) = Inr None)"
proof -
  note eq = refreshTokensMutation_eq [OF tg]
  have issue: "\<exists>newAccess newRefresh.
                fst (refreshTokensMutation now tok ctx) =
                  Inr (Some \<lparr>payload_refreshToken = newRefresh,
                             payload_accessToken = newAccess,
                             payload_count = count u\<rparr>)
                \<and> accessTokenGenerator now uid accessSecret = Inr newAccess
                \<and> refreshTokenGenerator now uid (count u) refreshSecret = Inr newRefresh
                \<and> verifyAccessToken now newAccess accessSecret = Some (u_id u)
                \<and> verifyRefreshToken now newRefresh refreshSecret
                    = Some (u_id u, Some (count u))"
    if ok: "verifyRefreshToken now tok refreshSecret = Some (uid, Some (count u))
              \<and> findUserById (ctx_users ctx) uid = Some u" for uid u
  proof -
    from ok have id: "u_id u = uid" by (auto dest: find_Some_id)
    from secrets(1) obtain a where a: "accessTokenGenerator now uid accessSecret = Inr a"
      using accessTokenGenerator_Inr_iff by blast
    from secrets(2) obtain r where r: "refreshTokenGenerator now uid (count u) refreshSecret = Inr r"
      using refreshTokenGenerator_Inr_iff by blast
    from ok a r have "fst (refreshTokensMutation now tok ctx) =
        Inr (Some \<lparr>payload_refreshToken = r, payload_accessToken = a, payload_count = count u\<rparr>)"
      by (simp add: eq)
    moreover from verifyAccessToken_issued [OF a, of now] id
    have "verifyAccessToken now a accessSecret = Some (u_id u)" by simp
    moreover from verifyRefreshToken_issued [OF r, of now] id
    have "verifyRefreshToken now r refreshSecret = Some (u_id u, Some (count u))" by simp
    ultimately show ?thesis using a r by blast
  qed
  have other: "fst (refreshTokensMutation now tok ctx) = Inr None"
    if none: "\<nexists>uid u. verifyRefreshToken now tok refreshSecret = Some (uid, Some (count u))
                    \<and> findUserById (ctx_users ctx) uid = Some u"
    using none by (auto simp: eq split: option.splits)
  have frame: "snd (refreshTokensMutation later tok ctx') = ctx'"
    if "ctx_tokenGenerator ctx' = tokenGeneratorWithSecrets accessSecret refreshSecret"
    for later ctx'
    by (simp add: refreshTokensMutation_eq [OF that])
  show ?thesis
  proof (intro conjI allI impI)
    show "(\<exists>p. fst (refreshTokensMutation now tok ctx) = Inr (Some p)) =
            (\<exists>uid u. verifyRefreshToken now tok refreshSecret = Some (uid, Some (count u))
                    \<and> findUserById (ctx_users ctx) uid = Some u)"
    proof
      assume "\<exists>p. fst (refreshTokensMutation now tok ctx) = Inr (Some p)"
      with other show "\<exists>uid u. verifyRefreshToken now tok refreshSecret = Some (uid, Some (count u))
                    \<and> findUserById (ctx_users ctx) uid = Some u"
        by force
    next
      assume "\<exists>uid u. verifyRefreshToken now tok refreshSecret = Some (uid, Some (count u))
                    \<and> findUserById (ctx_users ctx) uid = Some u"
      with issue show "\<exists>p. fst (refreshTokensMutation now tok ctx) = Inr (Some p)"
        by metis
    qed
  next
    fix uid u
    assume "verifyRefreshToken now tok refreshSecret = Some (uid, Some (count u))
                  \<and> findUserById (ctx_users ctx) uid = Some u"
    then show "\<exists>newAccess newRefresh.
                fst (refreshTokensMutation now tok ctx) =
                  Inr (Some \<lparr>payload_refreshToken = newRefresh,
                             payload_accessToken = newAccess,
                             payload_count = count u\<rparr>)
                \<and> accessTokenGenerator now uid accessSecret = Inr newAccess
                \<and> refreshTokenGenerator now uid (count u) refreshSecret = Inr newRefresh
                \<and> verifyAccessToken now newAccess accessSecret = Some (u_id u)
                \<and> verifyRefreshToken now newRefresh refreshSecret
                    = Some (u_id u, Some (count u))"
      by (rule issue)
  next
    assume "\<nexists>uid u. verifyRefreshToken now tok refreshSecret = Some (uid, Some (count u))
                    \<and> findUserById (ctx_users ctx) uid = Some u"
    then show "fst (refreshTokensMutation now tok ctx) = Inr None" by (rule other)
  next
    show "snd (refreshTokensMutation now tok ctx) = ctx" by (rule frame [OF tg])
  next
    fix p user later
    assume a: "fst (refreshTokensMutation now tok ctx) = Inr (Some p)
             \<and> ctx_user ctx = Some user
             \<and> (\<exists>c. verifyRefreshToken now tok refreshSecret = Some (u_id user, c))
             \<and> fst (invalidateTokensMutation ctx)"
    let ?ctx' = "snd (invalidateTokensMutation ctx)"
    from a obtain c where v: "verifyRefreshToken now tok refreshSecret = Some (u_id user, c)"
      by blast
    from a other have "\<exists>uid u. verifyRefreshToken now tok refreshSecret = Some (uid, Some (count u))
                    \<and> findUserById (ctx_users ctx) uid = Some u"
      by force
    with v obtain stored where c: "c = Some (count stored)"
      and f: "findUserById (ctx_users ctx) (u_id user) = Some stored"
      by auto
    from a have u: "ctx_user ctx = Some user" by simp
    note e = invalidateTokens_effect [OF u f]
    from a e(1) have ne: "count stored \<noteq> count user + 1" by simp
    from e(5) tg have tg': "ctx_tokenGenerator ?ctx' = tokenGeneratorWithSecrets accessSecret refreshSecret"
      by simp
    note eq' = refreshTokensMutation_eq [OF tg']
    show "fst (refreshTokensMutation later tok ?ctx') = Inr None"
    proof (cases "verifyRefreshToken later tok refreshSecret")
      case None
      then show ?thesis by (simp add: eq')
    next
      case (Some d)
      from verifyRefreshToken_any_time [OF Some v] c
      have "d = (u_id user, Some (count stored))" by simp
      with Some e(2) ne show ?thesis by (simp add: eq')
    qed
  qed
qed

theorem refreshTokens_iff_witness:
  "ctx_tokenGenerator alice_ctx = tokenGeneratorWithSecrets ''s3cret'' ''r3fresh''
   \<and> ''s3cret'' \<noteq> [] \<and> ''r3fresh'' \<noteq> []
   \<and> verifyRefreshToken 1500 alice_refresh ''r3fresh'' = Some (''5d1f'', Some (count alice))
   \<and> findUserById (ctx_users alice_ctx) ''5d1f'' = Some alice
   \<and> refreshTokensMutation 1500 alice_refresh alice_ctx =
        (Inr (Some \<lparr>payload_refreshToken = ''1500.606300.3.4.5d1f.7:r3fresh1500.606300.3.4.5d1f'',
                    payload_accessToken = ''1500.2400.-.4.5d1f.6:s3cret1500.2400.-.4.5d1f'',
                    payload_count = 3\<rparr>), alice_ctx)
   \<and> verifyAccessToken 1500 ''1500.2400.-.4.5d1f.6:s3cret1500.2400.-.4.5d1f'' ''s3cret'' = Some ''5d1f''
   \<and> verifyRefreshToken 1500 ''1500.606300.3.4.5d1f.7:r3fresh1500.606300.3.4.5d1f'' ''r3fresh'' = Some (''5d1f'', Some 3)
   \<and> verifyRefreshToken 1500 ''not.a.token'' ''r3fresh'' = None
   \<and> refreshTokensMutation 1500 ''not.a.token'' alice_ctx = (Inr None, alice_ctx)
   \<and> ctx_user alice_ctx = Some alice
   \<and> fst (invalidateTokensMutation alice_ctx)
   \<and> fst (refreshTokensMutation 1600 alice_refresh (snd (invalidateTokensMutation alice_ctx)))
        = Inr None"
proof -
  have tg: "ctx_tokenGenerator alice_ctx = tokenGeneratorWithSecrets ''s3cret'' ''r3fresh''" by simp
  have sa: "''s3cret'' \<noteq> []" and sr: "''r3fresh'' \<noteq> []" by simp_all
  have v: "verifyRefreshToken 1500 alice_refresh ''r3fresh'' = Some (''5d1f'', Some (count alice))"
    by (simp add: alice_refresh_verify)
  have v': "\<exists>c. verifyRefreshToken 1500 alice_refresh ''r3fresh'' = Some (u_id alice, c)"
    by (simp add: alice_refresh_verify)
  have f: "findUserById (ctx_users alice_ctx) ''5d1f'' = Some alice"
    by (simp add: findUserById_def)
  have u: "ctx_user alice_ctx = Some alice" by simp
  have i: "fst (invalidateTokensMutation alice_ctx)"
    by (simp add: invalidateTokensMutation_def updateUser_def)
  have ga: "accessTokenGenerator 1500 ''5d1f'' ''s3cret'' = Inr ''1500.2400.-.4.5d1f.6:s3cret1500.2400.-.4.5d1f''"
    by (simp add: accessTokenGenerator_def tokenGenerator_def jwt_sign_def encode_eval)
  have gr: "refreshTokenGenerator 1500 ''5d1f'' (count alice) ''r3fresh'' = Inr ''1500.606300.3.4.5d1f.7:r3fresh1500.606300.3.4.5d1f''"
    by (simp add: refreshTokenGenerator_def tokenGenerator_def jwt_sign_def encode_eval)
  have bad: "verifyRefreshToken 1500 ''not.a.token'' ''r3fresh'' = None"
    by (simp add: verifyRefreshToken_def jwt_verify_def decode_eval)
  then have none: "\<nexists>uid u. verifyRefreshToken 1500 ''not.a.token'' ''r3fresh''
        = Some (uid, Some (count u)) \<and> findUserById (ctx_users alice_ctx) uid = Some u"
    by simp
  note T = refreshTokens_iff [OF tg sa sr]
  note issue = T [of 1500 alice_refresh, THEN conjunct2, THEN conjunct1, THEN spec, THEN spec,
      THEN mp, OF conjI [OF v f]]
  note other = T [of 1500 "''not.a.token''", THEN conjunct2, THEN conjunct2, THEN conjunct1,
      THEN mp, OF none]
  note frame1 = T [of 1500 alice_refresh, THEN conjunct2, THEN conjunct2, THEN conjunct2,
      THEN conjunct1]
  note frame2 = T [of 1500 "''not.a.token''", THEN conjunct2, THEN conjunct2, THEN conjunct2,
      THEN conjunct1]
  from issue ga gr have
    p: "fst (refreshTokensMutation 1500 alice_refresh alice_ctx) =
        Inr (Some \<lparr>payload_refreshToken = ''1500.606300.3.4.5d1f.7:r3fresh1500.606300.3.4.5d1f'',
                    payload_accessToken = ''1500.2400.-.4.5d1f.6:s3cret1500.2400.-.4.5d1f'',
                    payload_count = 3\<rparr>)"
    and va: "verifyAccessToken 1500 ''1500.2400.-.4.5d1f.6:s3cret1500.2400.-.4.5d1f'' ''s3cret'' = Some ''5d1f''"
    and vr: "verifyRefreshToken 1500 ''1500.606300.3.4.5d1f.7:r3fresh1500.606300.3.4.5d1f'' ''r3fresh'' = Some (''5d1f'', Some 3)"
    by auto
  note revoked = T [of 1500 alice_refresh, THEN conjunct2, THEN conjunct2, THEN conjunct2,
      THEN conjunct2, THEN spec, THEN spec, THEN spec, THEN mp,
      OF conjI [OF p conjI [OF u conjI [OF v' i]]], of 1600]
  from p frame1 have r1: "refreshTokensMutation 1500 alice_refresh alice_ctx =
        (Inr (Some \<lparr>payload_refreshToken = ''1500.606300.3.4.5d1f.7:r3fresh1500.606300.3.4.5d1f'',
                    payload_accessToken = ''1500.2400.-.4.5d1f.6:s3cret1500.2400.-.4.5d1f'',
                    payload_count = 3\<rparr>), alice_ctx)"
    by (simp add: prod_eq_iff)
  from other frame2 have r2: "refreshTokensMutation 1500 ''not.a.token'' alice_ctx = (Inr None, alice_ctx)"
    by (simp add: prod_eq_iff)
  show ?thesis
    by (intro conjI tg sa sr v f r1 va vr bad r2 u i revoked)
qed

text \<open>
  C9. \<open>signUp\<close>, in a context whose generator is built from two non-empty secrets.
  It fails with an error, and changes nothing, when a user with the given email exists.
  Otherwise it appends to the collection a new user whose count is 0 and returns the token
  pair the generators issue now for the new id at count 0, together with the count 0: the
  returned refresh token verifies to the new id and the count 0, the access token to the
  new id. The two cookies are written to the response only when asked for.
\<close>

theorem signUp_creates_user_at_count_zero:
  assumes tg: "ctx_tokenGenerator ctx = tokenGeneratorWithSecrets accessSecret refreshSecret"
    and secrets: "accessSecret \<noteq> []" "refreshSecret \<noteq> []"
  shows "(isUser (ctx_users ctx) e \<longrightarrow>
            signUpMutation now newId salt e password cookies_arg ctx =
              (Inl (Error (''User with '' @ e @ '' already exists'')), ctx))
       \<and> (\<not> isUser (ctx_users ctx) e \<longrightarrow>
            (\<exists>newAccess newRefresh ctx'.
               signUpMutation now newId salt e password cookies_arg ctx =
                 (Inr \<lparr>payload_refreshToken = newRefresh,
                       payload_accessToken = newAccess,
                       payload_count = 0\<rparr>, ctx')
               \<and> ctx_users ctx' = ctx_users ctx @
                     [\<lparr>u_id = newId, email = e, passwordHash = bcrypt_hash password salt,
                       count = 0\<rparr>]
               \<and> findUserByEmail (ctx_users ctx') e =
                     Some \<lparr>u_id = newId, email = e, passwordHash = bcrypt_hash password salt,
                           count = 0\<rparr>
               \<and> accessTokenGenerator now newId accessSecret = Inr newAccess
               \<and> refreshTokenGenerator now newId 0 refreshSecret = Inr newRefresh
               \<and> verifyAccessToken now newAccess accessSecret = Some newId
               \<and> verifyRefreshToken now newRefresh refreshSecret = Some (newId, Some 0)
               \<and> ctx_res ctx' =
                     (if cookies_arg = Some True
                      then (ctx_res ctx)\<lparr>set_cookie := Some
                             [''refresh-token='' @ newRefresh @ ''; Max-Age=604800'',
                              ''access-token='' @ newAccess @ ''; Max-Age=54000'']\<rparr>
                      else ctx_res ctx)))"
proof (intro conjI impI)
  assume "isUser (ctx_users ctx) e"
  then show "signUpMutation now newId salt e password cookies_arg ctx =
              (Inl (Error (''User with '' @ e @ '' already exists'')), ctx)"
    by (simp add: signUpMutation_def)
next
  assume n: "\<not> isUser (ctx_users ctx) e"
  let ?doc = "\<lparr>u_id = newId, email = e, passwordHash = bcrypt_hash password salt, count = 0\<rparr>"
  from n have "findUserByEmail (ctx_users ctx) e = None" by (simp add: isUser_def)
  then have found: "findUserByEmail (ctx_users ctx @ [?doc]) e = Some ?doc"
    by (rule findUserByEmail_append_new) simp
  from signInHelper_secrets [OF secrets, of now newId 0 "Some (ctx_res ctx)" "Boolean cookies_arg"]
  obtain a r where a: "accessTokenGenerator now newId accessSecret = Inr a"
    and r: "refreshTokenGenerator now newId 0 refreshSecret = Inr r"
    and h: "signInHelper now newId 0 (tokenGeneratorWithSecrets accessSecret refreshSecret)
              (Some (ctx_res ctx)) (Boolean cookies_arg) =
            Inr (\<lparr>payload_refreshToken = r, payload_accessToken = a, payload_count = 0\<rparr>,
                 (if Boolean cookies_arg
                  then Some (addTokensToCookies \<lparr>accessToken = a, refreshToken = r\<rparr> (ctx_res ctx))
                  else Some (ctx_res ctx)))"
    by auto
  let ?ctx' = "ctx\<lparr>ctx_users := ctx_users ctx @ [?doc],
                  ctx_res := (if cookies_arg = Some True
                      then (ctx_res ctx)\<lparr>set_cookie := Some
                             [''refresh-token='' @ r @ ''; Max-Age=604800'',
                              ''access-token='' @ a @ ''; Max-Age=54000'']\<rparr>
                      else ctx_res ctx)\<rparr>"
  from n tg h have s: "signUpMutation now newId salt e password cookies_arg ctx =
      (Inr \<lparr>payload_refreshToken = r, payload_accessToken = a, payload_count = 0\<rparr>, ?ctx')"
    by (simp add: signUpMutation_def createNewUser_def Let_def Boolean_def
        addTokensToCookies_header)
  from verifyAccessToken_issued [OF a, of now]
  have va: "verifyAccessToken now a accessSecret = Some newId" by simp
  from verifyRefreshToken_issued [OF r, of now]
  have vr: "verifyRefreshToken now r refreshSecret = Some (newId, Some 0)" by simp
  have "signUpMutation now newId salt e password cookies_arg ctx =
                 (Inr \<lparr>payload_refreshToken = r, payload_accessToken = a, payload_count = 0\<rparr>, ?ctx')
               \<and> ctx_users ?ctx' = ctx_users ctx @ [?doc]
               \<and> findUserByEmail (ctx_users ?ctx') e = Some ?doc
               \<and> accessTokenGenerator now newId accessSecret = Inr a
               \<and> refreshTokenGenerator now newId 0 refreshSecret = Inr r
               \<and> verifyAccessToken now a accessSecret = Some newId
               \<and> verifyRefreshToken now r refreshSecret = Some (newId, Some 0)
               \<and> ctx_res ?ctx' =
                     (if cookies_arg = Some True
                      then (ctx_res ctx)\<lparr>set_cookie := Some
                             [''refresh-token='' @ r @ ''; Max-Age=604800'',
                              ''access-token='' @ a @ ''; Max-Age=54000'']\<rparr>
                      else ctx_res ctx)"
    using s found a r va vr by simp
  then show "\<exists>newAccess newRefresh ctx'.
               signUpMutation now newId salt e password cookies_arg ctx =
                 (Inr \<lparr>payload_refreshToken = newRefresh,
                       payload_accessToken = newAccess,
                       payload_count = 0\<rparr>, ctx')
               \<and> ctx_users ctx' = ctx_users ctx @ [?doc]
               \<and> findUserByEmail (ctx_users ctx') e = Some ?doc
               \<and> accessTokenGenerator now newId accessSecret = Inr newAccess
               \<and> refreshTokenGenerator now newId 0 refreshSecret = Inr newRefresh
               \<and> verifyAccessToken now newAccess accessSecret = Some newId
               \<and> verifyRefreshToken now newRefresh refreshSecret = Some (newId, Some 0)
               \<and> ctx_res ctx' =
                     (if cookies_arg = Some True
                      then (ctx_res ctx)\<lparr>set_cookie := Some
                             [''refresh-token='' @ newRefresh @ ''; Max-Age=604800'',
                              ''access-token='' @ newAccess @ ''; Max-Age=54000'']\<rparr>
                      else ctx_res ctx)"
    by blast
qed

theorem signUp_creates_user_at_count_zero_witness:
  "ctx_tokenGenerator alice_ctx = tokenGeneratorWithSecrets ''s3cret'' ''r3fresh''
   \<and> ''s3cret'' \<noteq> [] \<and> ''r3fresh'' \<noteq> []
   \<and> isUser (ctx_users alice_ctx) ''a@x.com''
   \<and> signUpMutation 2000 ''6e2a'' ''$2a$10$ABCDEFGHIJKLMNOPQRSTUV'' ''a@x.com'' ''pw2'' (Some True) alice_ctx =
        (Inl (Error ''User with a@x.com already exists''), alice_ctx)
   \<and> \<not> isUser (ctx_users alice_ctx) ''b@x.com''
   \<and> (\<exists>ctx'. signUpMutation 2000 ''6e2a'' ''$2a$10$ABCDEFGHIJKLMNOPQRSTUV'' ''b@x.com'' ''pw2'' (Some True) alice_ctx =
          (Inr \<lparr>payload_refreshToken = ''2000.606800.0.4.6e2a.7:r3fresh2000.606800.0.4.6e2a'',
                payload_accessToken = ''2000.2900.-.4.6e2a.6:s3cret2000.2900.-.4.6e2a'',
                payload_count = 0\<rparr>, ctx')
        \<and> ctx_users ctx' =
              [alice, \<lparr>u_id = ''6e2a'', email = ''b@x.com'',
                       passwordHash = bcrypt_hash ''pw2'' ''$2a$10$ABCDEFGHIJKLMNOPQRSTUV'', count = 0\<rparr>]
        \<and> ctx_res ctx' = \<lparr>set_cookie = Some
              [''refresh-token=2000.606800.0.4.6e2a.7:r3fresh2000.606800.0.4.6e2a; Max-Age=604800'',
               ''access-token=2000.2900.-.4.6e2a.6:s3cret2000.2900.-.4.6e2a; Max-Age=54000'']\<rparr>)
   \<and> verifyAccessToken 2000 ''2000.2900.-.4.6e2a.6:s3cret2000.2900.-.4.6e2a'' ''s3cret'' = Some ''6e2a''
   \<and> verifyRefreshToken 2000 ''2000.606800.0.4.6e2a.7:r3fresh2000.606800.0.4.6e2a'' ''r3fresh'' = Some (''6e2a'', Some 0)"
proof -
  have tg: "ctx_tokenGenerator alice_ctx = tokenGeneratorWithSecrets ''s3cret'' ''r3fresh''"
    by simp
  have sa: "''s3cret'' \<noteq> []" and sr: "''r3fresh'' \<noteq> []" by simp_all
  have y: "isUser (ctx_users alice_ctx) ''a@x.com''"
    by (simp add: isUser_def findUserByEmail_def)
  have n: "\<not> isUser (ctx_users alice_ctx) ''b@x.com''"
    by (simp add: isUser_def findUserByEmail_def)
  have ga: "accessTokenGenerator 2000 ''6e2a'' ''s3cret'' = Inr ''2000.2900.-.4.6e2a.6:s3cret2000.2900.-.4.6e2a''"
    by (simp add: accessTokenGenerator_def tokenGenerator_def jwt_sign_def encode_eval)
  have gr: "refreshTokenGenerator 2000 ''6e2a'' 0 ''r3fresh'' = Inr ''2000.606800.0.4.6e2a.7:r3fresh2000.606800.0.4.6e2a''"
    by (simp add: refreshTokenGenerator_def tokenGenerator_def jwt_sign_def encode_eval)
  note T = signUp_creates_user_at_count_zero [OF tg sa sr]
  note dup = T [of "''a@x.com''" 2000 "''6e2a''" "''$2a$10$ABCDEFGHIJKLMNOPQRSTUV''" "''pw2''" "Some True",
      THEN conjunct1, THEN mp, OF y]
  note new = T [of "''b@x.com''" 2000 "''6e2a''" "''$2a$10$ABCDEFGHIJKLMNOPQRSTUV''" "''pw2''" "Some True",
      THEN conjunct2, THEN mp, OF n]
  from dup have dup': "signUpMutation 2000 ''6e2a'' ''$2a$10$ABCDEFGHIJKLMNOPQRSTUV'' ''a@x.com'' ''pw2'' (Some True) alice_ctx =
        (Inl (Error ''User with a@x.com already exists''), alice_ctx)" by simp
  from new ga gr have
    new': "\<exists>ctx'. signUpMutation 2000 ''6e2a'' ''$2a$10$ABCDEFGHIJKLMNOPQRSTUV'' ''b@x.com'' ''pw2'' (Some True) alice_ctx =
          (Inr \<lparr>payload_refreshToken = ''2000.606800.0.4.6e2a.7:r3fresh2000.606800.0.4.6e2a'',
                payload_accessToken = ''2000.2900.-.4.6e2a.6:s3cret2000.2900.-.4.6e2a'',
                payload_count = 0\<rparr>, ctx')
        \<and> ctx_users ctx' =
              [alice, \<lparr>u_id = ''6e2a'', email = ''b@x.com'',
                       passwordHash = bcrypt_hash ''pw2'' ''$2a$10$ABCDEFGHIJKLMNOPQRSTUV'', count = 0\<rparr>]
        \<and> ctx_res ctx' = \<lparr>set_cookie = Some
              [''refresh-token=2000.606800.0.4.6e2a.7:r3fresh2000.606800.0.4.6e2a; Max-Age=604800'',
               ''access-token=2000.2900.-.4.6e2a.6:s3cret2000.2900.-.4.6e2a; Max-Age=54000'']\<rparr>"
    and va: "verifyAccessToken 2000 ''2000.2900.-.4.6e2a.6:s3cret2000.2900.-.4.6e2a'' ''s3cret'' = Some ''6e2a''"
    and vr: "verifyRefreshToken 2000 ''2000.606800.0.4.6e2a.7:r3fresh2000.606800.0.4.6e2a'' ''r3fresh'' = Some (''6e2a'', Some 0)"
    by auto
  show ?thesis
    by (intro conjI tg sa sr y dup' n new' va vr)
qed

end
